theory Spec2Isabelle
  imports Main "HOL-Library.AList"
begin

section \<open>Python values shared by both modules\<close>

text \<open>
  A Python \<open>str\<close> is modelled as \<^typ>\<open>string\<close>; a \<^typ>\<open>char\<close> stands for the code
  point of the same number, so the model covers the strings whose code points are below 256.
  A Python \<open>dict\<close> with string keys is an association list with distinct keys, kept in
  insertion order: \<open>d[k] = v\<close> is \<^const>\<open>AList.update\<close>, which overwrites in place
  when the key is present and appends otherwise.

  An exception is a value: its class, the text \<open>str(e)\<close>, and the exception that was being
  handled when it was raised (Python's implicit \<open>__context__\<close>).
\<close>

datatype exc_class =
    ModelError
  | ModelConfigurationError
  | ModelAPIError
  | ModelNotFoundError
  | ValueError
  | Builtin string

datatype exc = Exc (cls: exc_class) (msg: string) (ctx: "exc option")

text \<open>
  The class hierarchy, as far as the handlers of the two modules can tell classes apart.
  The three specific errors of \<open>model_manager.py\<close> derive from \<open>ModelError\<close> and from
  nothing else of the module. Among the built-in classes, named by \<open>Builtin\<close>, the
  Unicode errors derive from \<open>ValueError\<close>, and the classes listed below from \<open>OSError\<close>,
  of which \<open>IOError\<close> is another name.
\<close>

definition value_error_builtins :: "string list" where
  "value_error_builtins =
     [''UnicodeError'', ''UnicodeEncodeError'', ''UnicodeDecodeError'',
      ''UnicodeTranslateError'']"

definition os_error_builtins :: "string list" where
  "os_error_builtins =
     [''OSError'', ''IOError'', ''EnvironmentError'', ''BlockingIOError'',
      ''ChildProcessError'', ''ConnectionError'', ''BrokenPipeError'',
      ''ConnectionAbortedError'', ''ConnectionRefusedError'', ''ConnectionResetError'',
      ''FileExistsError'', ''FileNotFoundError'', ''InterruptedError'',
      ''IsADirectoryError'', ''NotADirectoryError'', ''PermissionError'',
      ''ProcessLookupError'', ''TimeoutError'']"

fun issubclass :: "exc_class \<Rightarrow> exc_class \<Rightarrow> bool" where
  "issubclass ModelConfigurationError ModelError = True"
| "issubclass ModelAPIError ModelError = True"
| "issubclass ModelNotFoundError ModelError = True"
| "issubclass (Builtin n) ValueError = (n \<in> set value_error_builtins)"
| "issubclass (Builtin n) (Builtin m) =
     (n = m \<or> (m \<in> set [''OSError'', ''IOError''] \<and> n \<in> set os_error_builtins))"
| "issubclass c d = (c = d)"

definition isinstance :: "exc \<Rightarrow> exc_class \<Rightarrow> bool" where
  "isinstance e c = issubclass (cls e) c"

text \<open>
  \<open>except Exception\<close> catches the instances of \<open>Exception\<close>. The classes that derive from
  \<open>BaseException\<close> directly are not among them: the interpreter's signals and the
  cancellation of an \<open>asyncio\<close> task pass through such a handler.
\<close>

definition base_only_builtins :: "string list" where
  "base_only_builtins =
     [''BaseException'', ''SystemExit'', ''KeyboardInterrupt'', ''GeneratorExit'',
      ''CancelledError'', ''BaseExceptionGroup'']"

fun is_Exception :: "exc_class \<Rightarrow> bool" where
  "is_Exception (Builtin n) = (n \<notin> set base_only_builtins)"
| "is_Exception c = True"

section \<open>model_manager.py\<close>

datatype ModelProvider = OPENAI | ANTHROPIC | OLLAMA

text \<open>\<open>str(self.provider)\<close>, as the f-strings of the module print it.\<close>

fun provider_str :: "ModelProvider \<Rightarrow> string" where
  "provider_str OPENAI = ''ModelProvider.OPENAI''"
| "provider_str ANTHROPIC = ''ModelProvider.ANTHROPIC''"
| "provider_str OLLAMA = ''ModelProvider.OLLAMA''"

text \<open>\<open>ModelProvider(provider)\<close>: the enum member of that value, or \<open>ValueError\<close>.\<close>

definition ModelProvider_of :: "string \<Rightarrow> exc + ModelProvider" where
  "ModelProvider_of s =
     (if s = ''openai'' then Inr OPENAI
      else if s = ''anthropic'' then Inr ANTHROPIC
      else if s = ''ollama'' then Inr OLLAMA
      else Inl (Exc ValueError (s @ '' is not a valid ModelProvider'') None))"

record ProviderConfig =
  max_tokens :: nat
  supports_tools :: bool
  streaming :: bool
  requires_api_key :: bool
  env_key :: "string option"

definition MODEL_CONFIG :: "(string \<times> ProviderConfig) list" where
  "MODEL_CONFIG =
     [(''anthropic/claude-3-5-sonnet-latest'',
         \<lparr>max_tokens = 8192, supports_tools = True, streaming = True,
          requires_api_key = True, env_key = Some ''ANTHROPIC_API_KEY''\<rparr>),
      (''ollama/qwen2.5-coder:14b'',
         \<lparr>max_tokens = 8192, supports_tools = True, streaming = True,
          requires_api_key = False, env_key = None\<rparr>),
      (''openai/gpt-4o'',
         \<lparr>max_tokens = 8192, supports_tools = True, streaming = True,
          requires_api_key = True, env_key = Some ''OPENAI_API_KEY''\<rparr>)]"

text \<open>The process environment after \<open>load_dotenv()\<close>; \<open>os.getenv\<close> is application.\<close>

type_synonym environ = "string \<rightharpoonup> string"

text \<open>\<open>model_name.split("/", 1)\<close>: one piece when there is no slash, two otherwise.\<close>

definition split_slash_once :: "string \<Rightarrow> string list" where
  "split_slash_once s =
     (if CHR ''/'' \<in> set s
      then [takeWhile (\<lambda>c. c \<noteq> CHR ''/'') s, tl (dropWhile (\<lambda>c. c \<noteq> CHR ''/'') s)]
      else [s])"

definition parse_model_name :: "string \<Rightarrow> exc + (ModelProvider \<times> string)" where
  "parse_model_name model_name =
     (case split_slash_once model_name of
        [provider, model] \<Rightarrow>
          (case ModelProvider_of provider of
             Inr p \<Rightarrow> Inr (p, model)
           | Inl e \<Rightarrow>
               Inl (Exc ModelConfigurationError
                      (''Invalid model name format: '' @ model_name) (Some e)))
      | _ \<Rightarrow>
          Inl (Exc ModelConfigurationError (''Invalid model name format: '' @ model_name)
                 (Some (Exc ValueError ''not enough values to unpack (expected 2, got 1)''
                          None))))"

definition load_model_config :: "environ \<Rightarrow> exc + string" where
  "load_model_config env =
     (case env ''MODEL'' of
        None \<Rightarrow>
          Inl (Exc ModelConfigurationError ''MODEL not found in environment variables'' None)
      | Some model \<Rightarrow>
          if model = [] then
            Inl (Exc ModelConfigurationError ''MODEL not found in environment variables'' None)
          else if model \<notin> set (map fst MODEL_CONFIG) then
            Inl (Exc ModelNotFoundError
                   (''Model '' @ model @ '' not found in configuration'') None)
          else Inr model)"

definition validate_api_keys :: "environ \<Rightarrow> string \<Rightarrow> exc + unit" where
  "validate_api_keys env model_name =
     (case map_of MODEL_CONFIG model_name of
        None \<Rightarrow>
          Inl (Exc ModelNotFoundError
                 (''Model '' @ model_name @ '' not found in configuration'') None)
      | Some config \<Rightarrow>
          if requires_api_key config then
            (case env_key config of
               None \<Rightarrow> Inl (Exc (Builtin ''TypeError'') ''str expected, not NoneType'' None)
             | Some k \<Rightarrow>
                 (case env k of
                    None \<Rightarrow>
                      Inl (Exc ModelConfigurationError
                             (''API key '' @ k @ '' required for '' @ model_name
                              @ '' not found in environment variables'') None)
                  | Some api_key \<Rightarrow>
                      if api_key = [] then
                        Inl (Exc ModelConfigurationError
                               (''API key '' @ k @ '' required for '' @ model_name
                                @ '' not found in environment variables'') None)
                      else Inr ()))
          else Inr ())"

text \<open>A provider client: which library built it and the API key it was given.\<close>

datatype Client = AsyncClient | AsyncAnthropic "string option" | AsyncOpenAI "string option"

record ModelManager =
  full_model_name :: string
  provider :: ModelProvider
  model_name :: string
  client_memo :: "Client option"

text \<open>\<open>ModelManager.__init__\<close>. No branch of it builds a client or reaches a transport:
  the constructor only reads the environment and the registry, and a manager that is
  returned has its \<open>_client\<close> field still \<open>None\<close>.\<close>

definition ModelManager_init :: "environ \<Rightarrow> exc + ModelManager" where
  "ModelManager_init env =
     (case load_model_config env of
        Inl e \<Rightarrow> Inl e
      | Inr full \<Rightarrow>
          (case parse_model_name full of
             Inl e \<Rightarrow> Inl e
           | Inr (p, m) \<Rightarrow>
               (case validate_api_keys env full of
                  Inl e \<Rightarrow> Inl e
                | Inr _ \<Rightarrow>
                    Inr \<lparr>full_model_name = full, provider = p, model_name = m,
                         client_memo = None\<rparr>)))"

subsection \<open>Requests, native responses and the normalised response\<close>

record ChatMessage =
  role :: string
  content :: string

type_synonym tool_call = string

text \<open>The dictionary every \<open>_format_*_response\<close> returns: keys \<open>content\<close>,
  \<open>tool_calls\<close> and \<open>usage\<close>, the last one a dictionary of counters.\<close>

record ChatResponse =
  r_content :: string
  r_tool_calls :: "tool_call list"
  r_usage :: "(string \<times> nat) list"

text \<open>What the Ollama client returns, read with \<open>.get\<close>: a \<open>message\<close> entry that may be
  absent, holding \<open>content\<close> and \<open>tool_calls\<close> entries that may be absent, next to the
  token counters of the native reply (\<open>prompt_eval_count\<close>, \<open>eval_count\<close>).\<close>

record ollama_message =
  om_content :: "string option"
  om_tool_calls :: "tool_call list option"

record ollama_response =
  o_message :: "ollama_message option"
  prompt_eval_count :: "nat option"
  eval_count :: "nat option"

text \<open>An Anthropic reply: the \<open>text\<close> of each content block (\<open>None\<close> for a block without
  that attribute), the \<open>tool_calls\<close> attribute when the object has one, and \<open>usage\<close>
  (input and output tokens) when the object has one.\<close>

record anthropic_response =
  a_content :: "string option list"
  a_tool_calls :: "tool_call list option"
  a_usage :: "(nat \<times> nat) option"

text \<open>An OpenAI reply: per choice the message text and its \<open>tool_calls\<close> (\<open>None\<close> or a
  list); the \<open>usage\<close> attribute is missing, \<open>None\<close>, or an object with a \<open>dict()\<close>.
  Message texts are strings: no request of this module passes tools.\<close>

record openai_choice =
  c_content :: string
  c_tool_calls :: "tool_call list option"

datatype openai_usage = NoUsageAttr | UsageNone | UsageDict "(string \<times> nat) list"

record openai_response =
  choices :: "openai_choice list"
  oa_usage :: openai_usage

definition format_ollama_response :: "ollama_response \<Rightarrow> ChatResponse" where
  "format_ollama_response response =
     \<lparr>r_content =
        (case o_message response of
           None \<Rightarrow> []
         | Some m \<Rightarrow> (case om_content m of None \<Rightarrow> [] | Some c \<Rightarrow> c)),
      r_tool_calls =
        (case o_message response of
           None \<Rightarrow> []
         | Some m \<Rightarrow> (case om_tool_calls m of None \<Rightarrow> [] | Some t \<Rightarrow> t)),
      r_usage = [(''total_tokens'', 0)]\<rparr>"

definition format_anthropic_response :: "anthropic_response \<Rightarrow> exc + ChatResponse" where
  "format_anthropic_response response =
     (case (case a_content response of
              [] \<Rightarrow> Inr []
            | b # _ \<Rightarrow>
                (case b of
                   None \<Rightarrow> Inl (Exc (Builtin ''AttributeError'') ''text'' None)
                 | Some t \<Rightarrow> Inr t)) of
        Inl e \<Rightarrow> Inl e
      | Inr text \<Rightarrow>
          Inr \<lparr>r_content = text,
               r_tool_calls = (case a_tool_calls response of None \<Rightarrow> [] | Some t \<Rightarrow> t),
               r_usage =
                 [(''total_tokens'',
                   (case a_usage response of None \<Rightarrow> 0 | Some (input_tokens, output_tokens) \<Rightarrow> input_tokens + output_tokens))]\<rparr>)"

definition format_openai_response :: "openai_response \<Rightarrow> exc + ChatResponse" where
  "format_openai_response response =
     (case choices response of
        [] \<Rightarrow> Inl (Exc (Builtin ''IndexError'') ''list index out of range'' None)
      | c # _ \<Rightarrow>
          (case oa_usage response of
             UsageNone \<Rightarrow>
               Inl (Exc (Builtin ''AttributeError'')
                      ''NoneType object has no attribute dict'' None)
           | UsageDict d \<Rightarrow>
               Inr \<lparr>r_content = c_content c,
                    r_tool_calls = (case c_tool_calls c of None \<Rightarrow> [] | Some t \<Rightarrow> t),
                    r_usage = d\<rparr>
           | NoUsageAttr \<Rightarrow>
               Inr \<lparr>r_content = c_content c,
                    r_tool_calls = (case c_tool_calls c of None \<Rightarrow> [] | Some t \<Rightarrow> t),
                    r_usage = [(''total_tokens'', 0)]\<rparr>))"

subsection \<open>The manager's client and \<open>chat_completion\<close>\<close>

text \<open>
  The three provider libraries are outside the repository. They are a parameter: whether
  building a client raises, and what each chat call returns or raises for a model name
  and a list of messages.
\<close>

record libs =
  construct :: "Client \<Rightarrow> exc option"
  ollama_chat_api :: "string \<Rightarrow> ChatMessage list \<Rightarrow> exc + ollama_response"
  anthropic_create_api :: "string \<Rightarrow> nat \<Rightarrow> ChatMessage list \<Rightarrow> exc + anthropic_response"
  openai_create_api :: "string \<Rightarrow> ChatMessage list \<Rightarrow> exc + openai_response"

definition initialize_client :: "libs \<Rightarrow> environ \<Rightarrow> ModelManager \<Rightarrow> exc + Client" where
  "initialize_client lib env self =
     (let c = (case provider self of
                 OLLAMA \<Rightarrow> AsyncClient
               | ANTHROPIC \<Rightarrow> AsyncAnthropic (env ''ANTHROPIC_API_KEY'')
               | OPENAI \<Rightarrow> AsyncOpenAI (env ''OPENAI_API_KEY''))
      in case construct lib c of
           None \<Rightarrow> Inr c
         | Some e \<Rightarrow>
             if is_Exception (cls e) then
               Inl (Exc ModelConfigurationError
                      (''Error initializing client for '' @ provider_str (provider self)
                       @ '': '' @ msg e) (Some e))
             else Inl e)"

text \<open>The \<open>client\<close> property: built on first use and kept in the manager.\<close>

definition client :: "libs \<Rightarrow> environ \<Rightarrow> ModelManager \<Rightarrow> (exc + Client) \<times> ModelManager" where
  "client lib env self =
     (case client_memo self of
        Some c \<Rightarrow> (Inr c, self)
      | None \<Rightarrow>
          (case initialize_client lib env self of
             Inl e \<Rightarrow> (Inl e, self)
           | Inr c \<Rightarrow> (Inr c, self\<lparr>client_memo := Some c\<rparr>)))"

definition copy_messages :: "ChatMessage list \<Rightarrow> ChatMessage list" where
  "copy_messages messages = map (\<lambda>m. \<lparr>role = role m, content = content m\<rparr>) messages"

definition ollama_chat ::
  "libs \<Rightarrow> environ \<Rightarrow> ModelManager \<Rightarrow> ChatMessage list \<Rightarrow> (exc + ChatResponse) \<times> ModelManager"
where
  "ollama_chat lib env self messages =
     (case client lib env self of
        (Inl e, self') \<Rightarrow> (Inl e, self')
      | (Inr _, self') \<Rightarrow>
          (case ollama_chat_api lib (model_name self) (copy_messages messages) of
             Inl e \<Rightarrow> (Inl e, self')
           | Inr response \<Rightarrow> (Inr (format_ollama_response response), self')))"

definition anthropic_chat ::
  "libs \<Rightarrow> environ \<Rightarrow> ModelManager \<Rightarrow> ChatMessage list \<Rightarrow> (exc + ChatResponse) \<times> ModelManager"
where
  "anthropic_chat lib env self messages =
     (case client lib env self of
        (Inl e, self') \<Rightarrow> (Inl e, self')
      | (Inr _, self') \<Rightarrow>
          (case map_of MODEL_CONFIG (full_model_name self) of
             None \<Rightarrow> (Inl (Exc (Builtin ''KeyError'') (full_model_name self) None), self')
           | Some config \<Rightarrow>
               (case anthropic_create_api lib (model_name self) (max_tokens config)
                       (copy_messages messages) of
                  Inl e \<Rightarrow> (Inl e, self')
                | Inr response \<Rightarrow> (format_anthropic_response response, self'))))"

definition openai_chat ::
  "libs \<Rightarrow> environ \<Rightarrow> ModelManager \<Rightarrow> ChatMessage list \<Rightarrow> (exc + ChatResponse) \<times> ModelManager"
where
  "openai_chat lib env self messages =
     (case client lib env self of
        (Inl e, self') \<Rightarrow> (Inl e, self')
      | (Inr _, self') \<Rightarrow>
          (case openai_create_api lib (model_name self) (copy_messages messages) of
             Inl e \<Rightarrow> (Inl e, self')
           | Inr response \<Rightarrow> (format_openai_response response, self')))"

definition format_messages :: "ModelManager \<Rightarrow> ChatMessage list \<Rightarrow> ChatMessage list" where
  "format_messages self messages =
     (if provider self = ANTHROPIC then copy_messages messages else messages)"

text \<open>The body of the \<open>try\<close> of \<open>chat_completion\<close>: the dispatch on the provider.\<close>

definition dispatch_chat ::
  "libs \<Rightarrow> environ \<Rightarrow> ModelManager \<Rightarrow> ChatMessage list \<Rightarrow> (exc + ChatResponse) \<times> ModelManager"
where
  "dispatch_chat lib env self messages =
     (let formatted_messages = format_messages self messages
      in case provider self of
           OLLAMA \<Rightarrow> ollama_chat lib env self formatted_messages
         | ANTHROPIC \<Rightarrow> anthropic_chat lib env self formatted_messages
         | OPENAI \<Rightarrow> openai_chat lib env self formatted_messages)"

text \<open>\<open>chat_completion\<close>: an instance of \<open>Exception\<close> that the body raises is caught by
  \<open>except Exception as e\<close> and replaced by a \<open>ModelAPIError\<close> whose text ends with
  \<open>str(e)\<close>; being raised inside the handler, the new exception has \<open>e\<close> as its context.
  Anything else that the body raises leaves the function as it is.\<close>

definition chat_completion ::
  "libs \<Rightarrow> environ \<Rightarrow> ModelManager \<Rightarrow> ChatMessage list \<Rightarrow> (exc + ChatResponse) \<times> ModelManager"
where
  "chat_completion lib env self messages =
     (case dispatch_chat lib env self messages of
        (Inr response, self') \<Rightarrow> (Inr response, self')
      | (Inl e, self') \<Rightarrow>
          if is_Exception (cls e) then
            (Inl (Exc ModelAPIError
                    (''Error in chat completion with '' @ provider_str (provider self)
                     @ '': '' @ msg e) (Some e)),
             self')
          else (Inl e, self'))"

section \<open>o1-eng.py: strings and regular expressions\<close>

text \<open>The characters that \<open>str.strip\<close>, \<open>str.split\<close> and the pattern \<open>\s\<close> treat as
  white space, and the characters that \<open>\w\<close> matches, among the code points below 256.\<close>

definition isspace :: "char \<Rightarrow> bool" where
  "isspace c =
     (c \<in> set [CHR 0x09, CHR 0x0A, CHR 0x0B, CHR 0x0C, CHR 0x0D, CHR 0x1C, CHR 0x1D,
                CHR 0x1E, CHR 0x1F, CHR 0x20, CHR 0x85, CHR 0xA0])"

definition isword :: "char \<Rightarrow> bool" where
  "isword c =
     (let n = (of_char c :: nat)
      in (0x30 \<le> n \<and> n \<le> 0x39) \<or> (0x41 \<le> n \<and> n \<le> 0x5A) \<or> n = 0x5F
         \<or> (0x61 \<le> n \<and> n \<le> 0x7A) \<or> n = 0xAA \<or> n = 0xB2 \<or> n = 0xB3 \<or> n = 0xB5
         \<or> n = 0xB9 \<or> n = 0xBA \<or> (0xBC \<le> n \<and> n \<le> 0xBE) \<or> (0xC0 \<le> n \<and> n \<le> 0xD6)
         \<or> (0xD8 \<le> n \<and> n \<le> 0xF6) \<or> (0xF8 \<le> n \<and> n \<le> 0xFF))"

definition strip :: "string \<Rightarrow> string" where
  "strip s = rev (dropWhile isspace (rev (dropWhile isspace s)))"

text \<open>\<open>s.split("\n")\<close> and \<open>"\n".join(xs)\<close>.\<close>

fun split_nl :: "string \<Rightarrow> string list" where
  "split_nl [] = [[]]"
| "split_nl (c # cs) =
     (if c = CHR 0x0A then [] # split_nl cs
      else (case split_nl cs of
              [] \<Rightarrow> [[c]]
            | l # ls \<Rightarrow> (c # l) # ls))"

fun join_nl :: "string list \<Rightarrow> string" where
  "join_nl [] = []"
| "join_nl [x] = x"
| "join_nl (x # y # ys) = x @ [CHR 0x0A] @ join_nl (y # ys)"

text \<open>\<open>s.split()\<close>: the maximal runs of characters that are not white space; \<open>cur\<close> is
  the run being read.\<close>

fun split_ws_from :: "string \<Rightarrow> string \<Rightarrow> string list" where
  "split_ws_from cur [] = (if cur = [] then [] else [cur])"
| "split_ws_from cur (c # cs) =
     (if isspace c then (if cur = [] then split_ws_from [] cs else cur # split_ws_from [] cs)
      else split_ws_from (cur @ [c]) cs)"

definition split_ws :: "string \<Rightarrow> string list" where
  "split_ws s = split_ws_from [] s"

text \<open>\<open>line.startswith(p)\<close>.\<close>

definition startswith :: "string \<Rightarrow> string \<Rightarrow> bool" where
  "startswith s p = (take (length p) s = p)"

text \<open>
  \<open>re.findall(r"```(?:\w+)?\s*([\s\S]*?)```", s)\<close>. A match starts at an opening fence;
  the greedy \<open>(?:\w+)?\<close> and \<open>\s*\<close> take the word characters and then the white space
  that follow it; the lazy group runs to the first closing fence after that point.
  Giving back word or white-space characters never produces another match, because a
  fence cannot start at one of them, so the greedy choice decides. The search resumes
  after the closing fence of a match, and one character further when there is none.
  \<open>find_fence s\<close> cuts \<open>s\<close> at its first fence.
\<close>

definition fence :: string where
  "fence = [CHR 0x60, CHR 0x60, CHR 0x60]"

fun find_fence :: "string \<Rightarrow> (string \<times> string) option" where
  "find_fence [] = None"
| "find_fence (c # cs) =
     (if startswith (c # cs) fence then Some ([], drop 3 (c # cs))
      else (case find_fence cs of
              None \<Rightarrow> None
            | Some (body, rest) \<Rightarrow> Some (c # body, rest)))"

lemma find_fence_shorter: "find_fence s = Some (body, rest) \<Longrightarrow> length rest < length s"
  by (induction s arbitrary: body) (auto split: if_splits option.splits)

function findall_code_blocks :: "string \<Rightarrow> string list" where
  "findall_code_blocks [] = []"
| "findall_code_blocks (c # cs) =
     (if startswith (c # cs) fence then
        (case find_fence (dropWhile isspace (dropWhile isword (drop 3 (c # cs)))) of
           Some (body, rest) \<Rightarrow> body # findall_code_blocks rest
         | None \<Rightarrow> findall_code_blocks cs)
      else findall_code_blocks cs)"
  by pat_completeness auto
termination
proof (relation "measure length")
  fix c cs x2 x y
  assume "find_fence (dropWhile isspace (dropWhile isword (drop 3 (c # cs)))) = Some x2"
    and "(x, y) = x2"
  then have "length y < length (dropWhile isspace (dropWhile isword (drop 3 (c # cs))))"
    using find_fence_shorter [of _ x y] by simp
  also have "\<dots> \<le> length (dropWhile isword (drop 3 (c # cs)))"
    by (rule length_dropWhile_le)
  also have "\<dots> \<le> length (drop 3 (c # cs))"
    by (rule length_dropWhile_le)
  also have "\<dots> \<le> length (c # cs)"
    by simp
  finally show "(y, c # cs) \<in> measure length" by simp
qed simp_all

text \<open>\<open>re.match(r"### (FILE|FOLDER): (.+)", s)\<close>: the marker at the very start of \<open>s\<close>,
  then a path of at least one character that runs to the end of the line.\<close>

datatype item_type = FILE | FOLDER

definition rest_of_line :: "string \<Rightarrow> string" where
  "rest_of_line s = takeWhile (\<lambda>c. c \<noteq> CHR 0x0A) s"

definition info_match :: "string \<Rightarrow> (item_type \<times> string) option" where
  "info_match s =
     (if startswith s ''### FILE: '' then
        (if rest_of_line (drop 10 s) = [] then None
         else Some (FILE, rest_of_line (drop 10 s)))
      else if startswith s ''### FOLDER: '' then
        (if rest_of_line (drop 12 s) = [] then None
         else Some (FOLDER, rest_of_line (drop 12 s)))
      else None)"

text \<open>\<open>re.sub(r"### FILE: .+\n", "", code, count=1)\<close>: the first place where the marker,
  a non-empty rest of the line and its newline occur is cut out; without such a place
  the text is returned as it is.\<close>

fun sub_file_marker :: "string \<Rightarrow> string" where
  "sub_file_marker [] = []"
| "sub_file_marker (c # cs) =
     (if startswith (c # cs) ''### FILE: ''
         \<and> rest_of_line (drop 10 (c # cs)) \<noteq> []
         \<and> dropWhile (\<lambda>c. c \<noteq> CHR 0x0A) (drop 10 (c # cs)) \<noteq> []
      then tl (dropWhile (\<lambda>c. c \<noteq> CHR 0x0A) (drop 10 (c # cs)))
      else c # sub_file_marker cs)"

text \<open>\<open>os.path.dirname\<close> of \<open>posixpath\<close>: everything up to the last slash, without
  its trailing slashes unless it consists of slashes only.\<close>

definition dirname :: "string \<Rightarrow> string" where
  "dirname p =
     (let head = rev (dropWhile (\<lambda>c. c \<noteq> CHR ''/'') (rev p))
      in if head \<noteq> [] \<and> \<not> list_all (\<lambda>c. c = CHR ''/'') head
         then rev (dropWhile (\<lambda>c. c = CHR ''/'') (rev head))
         else head)"

text \<open>The equations of the two scanners are applied on request only, together with the
  definitions of the character classes.\<close>

declare findall_code_blocks.simps [simp del]

declare sub_file_marker.simps [simp del]

lemmas string_eval =
  findall_code_blocks.simps sub_file_marker.simps startswith_def fence_def isspace_def
  isword_def strip_def rest_of_line_def

section \<open>o1-eng.py: the session and its collaborators\<close>

text \<open>
  What the module reaches outside itself is made explicit.
  \<^item> The operating system is a parameter: the four calls that \<open>apply_creation_steps\<close>
    makes on a file system of type \<open>'fs\<close>. A call that raises returns the exception
    next to the file system it leaves behind.
  \<^item> \<open>model_manager.chat_completion\<close> is a parameter: the answer to the \<open>n\<close>-th
    request of the session, an exception or a normalised response.
  \<^item> The texts of \<open>EDIT_INSTRUCTION_PROMPT\<close> and \<open>APPLY_EDITS_PROMPT\<close> are parameters.
  \<^item> Calls of the logger are left out: they write to a sink that nothing reads back.

  The exceptions that these collaborators raise are instances of \<open>Exception\<close>, which the
  handlers \<open>except Exception\<close> of this module catch; a signal such as
  \<open>KeyboardInterrupt\<close> ends the program and is outside the model.
\<close>

record 'fs os_calls =
  path_exists :: "'fs \<Rightarrow> string \<Rightarrow> bool"
  access_W_OK :: "'fs \<Rightarrow> string \<Rightarrow> bool"
  makedirs :: "'fs \<Rightarrow> string \<Rightarrow> exc option \<times> 'fs"
  write_text :: "'fs \<Rightarrow> string \<Rightarrow> string \<Rightarrow> exc option \<times> 'fs"

type_synonym model_calls = "nat \<Rightarrow> ChatMessage list \<Rightarrow> exc + ChatResponse"

record prompts =
  EDIT_INSTRUCTION_PROMPT :: string
  APPLY_EDITS_PROMPT :: string

text \<open>A line written by \<open>print\<close>: plain, or wrapped by \<open>colored(text, colour)\<close>.\<close>

datatype out = Plain string | Colored string string

text \<open>The state that the functions of the module read and change: the file system, the
  terminal, the seconds passed to \<open>time.sleep\<close>, the two globals
  \<open>conversation_history\<close> and \<open>last_ai_response\<close>, and the requests sent so far.\<close>

record 'fs world =
  fs :: 'fs
  stdout :: "out list"
  slept :: "nat list"
  conversation_history :: "string list"
  last_ai_response :: "string option"
  requests :: "ChatMessage list list"

type_synonym files = "(string \<times> string) list"

subsection \<open>\<open>chat_with_ai\<close>\<close>

definition file_context :: "files \<Rightarrow> string" where
  "file_context added_files =
     ''Added files:\<newline>''
     @ concat (map (\<lambda>(file_path, file_text).
                 ''File: '' @ file_path @ ''\<newline>Content:\<newline>'' @ file_text
                 @ ''\<newline>\<newline>'') added_files)"

definition history_text :: "string list \<Rightarrow> string" where
  "history_text h =
     join_nl (map (\<lambda>(i, msg). if i mod 2 = 0 then ''User: '' @ msg else ''AI: '' @ msg)
                (enumerate 0 h))"

text \<open>The value of \<open>user_message\<close> after the two rewritings at the top of the function;
  this is also the entry that is appended to the history.\<close>

definition outgoing_user_message ::
  "string list \<Rightarrow> string \<Rightarrow> bool \<Rightarrow> files option \<Rightarrow> string"
where
  "outgoing_user_message history user_message is_edit_request added_files =
     (let with_files =
            (case added_files of
               None \<Rightarrow> user_message
             | Some d \<Rightarrow>
                 if d = [] then user_message
                 else file_context d @ ''\<newline>'' @ user_message)
      in if \<not> is_edit_request \<and> history_text history \<noteq> []
         then history_text history @ ''\<newline>User: '' @ with_files
         else with_files)"

definition message_content :: "prompts \<Rightarrow> string \<Rightarrow> bool \<Rightarrow> nat \<Rightarrow> string" where
  "message_content pr user_message is_edit_request retry_count =
     (if is_edit_request
      then (if retry_count = 0 then EDIT_INSTRUCTION_PROMPT pr else APPLY_EDITS_PROMPT pr)
           @ ''\<newline>\<newline>User request: '' @ user_message
      else user_message)"

text \<open>\<open>conversation_history[-20:]\<close>.\<close>

definition last20 :: "string list \<Rightarrow> string list" where
  "last20 h = drop (length h - 20) h"

definition chat_with_ai ::
  "model_calls \<Rightarrow> prompts \<Rightarrow> string \<Rightarrow> bool \<Rightarrow> nat \<Rightarrow> files option \<Rightarrow> 'fs world
     \<Rightarrow> string option \<times> 'fs world"
where
  "chat_with_ai mm pr user_message0 is_edit_request retry_count added_files w =
     (let user_message =
            outgoing_user_message (conversation_history w) user_message0 is_edit_request
              added_files;
          messages =
            [\<lparr>role = ''user'',
              content = message_content pr user_message is_edit_request retry_count\<rparr>];
          w1 = w\<lparr>requests := requests w @ [messages]\<rparr>
      in case mm (length (requests w)) messages of
           Inl e \<Rightarrow> (None, w1)
         | Inr response \<Rightarrow>
             (let w2 = w1\<lparr>last_ai_response := Some (r_content response)\<rparr>;
                  w3 = (if \<not> is_edit_request then
                          (let h = conversation_history w2 @ [user_message, r_content response]
                           in w2\<lparr>conversation_history :=
                                    (if length h > 20 then last20 h else h)\<rparr>)
                        else w2)
              in (Some (r_content response), w3)))"

subsection \<open>\<open>apply_creation_steps\<close>\<close>

text \<open>The body of the \<open>for\<close> loop for one code block. The result is the exception that
  left the loop, if any, and the state reached.\<close>

definition apply_block :: "'fs os_calls \<Rightarrow> string \<Rightarrow> 'fs world \<Rightarrow> exc option \<times> 'fs world" where
  "apply_block os code w =
     (case info_match (strip code) of
        None \<Rightarrow> (None, w)
      | Some (item, path) \<Rightarrow>
          if \<not> path_exists os (fs w) path then
            (None, w\<lparr>stdout := stdout w @ [Colored (''Path not found: '' @ path) ''red'']\<rparr>)
          else if \<not> access_W_OK os (fs w) path then
            (None, w\<lparr>stdout := stdout w
                       @ [Colored (''Cannot write to file/directory: '' @ path) ''red'']\<rparr>)
          else
            (case item of
               FOLDER \<Rightarrow>
                 (case makedirs os (fs w) path of (r, fs1) \<Rightarrow> (r, w\<lparr>fs := fs1\<rparr>))
             | FILE \<Rightarrow>
                 (let file_content = strip (sub_file_marker code);
                      directory = dirname path;
                      (r, fs1) =
                        (if directory \<noteq> [] \<and> \<not> path_exists os (fs w) directory
                         then makedirs os (fs w) directory
                         else (None, fs w))
                  in case r of
                       Some e \<Rightarrow> (Some e, w\<lparr>fs := fs1\<rparr>)
                     | None \<Rightarrow>
                         (case write_text os fs1 path file_content of
                            (r2, fs2) \<Rightarrow> (r2, w\<lparr>fs := fs2\<rparr>)))))"

fun creation_loop :: "'fs os_calls \<Rightarrow> string list \<Rightarrow> 'fs world \<Rightarrow> exc option \<times> 'fs world" where
  "creation_loop os [] w = (None, w)"
| "creation_loop os (code # rest) w =
     (case apply_block os code w of
        (Some e, w') \<Rightarrow> (Some e, w')
      | (None, w') \<Rightarrow> creation_loop os rest w')"

text \<open>The \<open>try\<close> block: \<open>ValueError\<close> when the response has no code block, the loop
  otherwise.\<close>

definition creation_body :: "'fs os_calls \<Rightarrow> string \<Rightarrow> 'fs world \<Rightarrow> exc option \<times> 'fs world" where
  "creation_body os creation_response w =
     (let code_blocks = findall_code_blocks creation_response
      in if code_blocks = []
         then (Some (Exc ValueError ''No code blocks found in the AI response.'' None), w)
         else creation_loop os code_blocks w)"

definition max_retries :: nat where
  "max_retries = 3"

function apply_creation_steps ::
  "'fs os_calls \<Rightarrow> model_calls \<Rightarrow> prompts \<Rightarrow> string \<Rightarrow> files option \<Rightarrow> nat \<Rightarrow> 'fs world
     \<Rightarrow> bool \<times> 'fs world"
where
  "apply_creation_steps os mm pr creation_response added_files retry_count w =
     (case creation_body os creation_response w of
        (None, w') \<Rightarrow> (True, w')
      | (Some e, w') \<Rightarrow>
          if isinstance e ValueError then
            (if retry_count < max_retries then
               (case chat_with_ai mm pr
                       (msg e @ '' Please provide the creation instructions again using the specified format.'')
                       False 0 added_files (w'\<lparr>slept := slept w' @ [2 ^ retry_count]\<rparr>) of
                  (Some new_response, w'') \<Rightarrow>
                    if new_response \<noteq> []
                    then apply_creation_steps os mm pr new_response added_files
                           (retry_count + 1) w''
                    else (False, w'')
                | (None, w'') \<Rightarrow> (False, w''))
             else
               (False,
                w'\<lparr>stdout := stdout w'
                      @ [Plain ''Creation response that failed to parse:'',
                         Plain creation_response]\<rparr>))
          else (False, w'))"
  by pat_completeness auto
termination
  by (relation "measure (\<lambda>(os, mm, pr, creation_response, added_files, retry_count, w).
                           max_retries - retry_count)")
     auto

text \<open>The defining equation of \<open>apply_creation_steps\<close> mentions the function on
  its right-hand side; it is unfolded by hand, one call at a time.\<close>

declare apply_creation_steps.simps [simp del]

subsection \<open>\<open>parse_edit_instructions\<close> and \<open>apply_edit_instructions\<close>\<close>

text \<open>\<open>if current_file: instructions[current_file] = "\n".join(current_instructions)\<close>;
  \<open>None\<close> and the empty string are both false.\<close>

fun store_current :: "string option \<Rightarrow> string list \<Rightarrow> files \<Rightarrow> files" where
  "store_current None current_instructions instructions = instructions"
| "store_current (Some current_file) current_instructions instructions =
     (if current_file = [] then instructions
      else AList.update current_file (join_nl current_instructions) instructions)"

fun truthy :: "string option \<Rightarrow> bool" where
  "truthy None = False"
| "truthy (Some s) = (s \<noteq> [])"

fun parse_lines :: "string list \<Rightarrow> files \<Rightarrow> string option \<Rightarrow> string list \<Rightarrow> files" where
  "parse_lines [] instructions current_file current_instructions =
     store_current current_file current_instructions instructions"
| "parse_lines (line # rest) instructions current_file current_instructions =
     (if startswith line ''File: '' then
        parse_lines rest (store_current current_file current_instructions instructions)
          (Some (strip (drop 6 line))) []
      else if strip line \<noteq> [] \<and> truthy current_file then
        parse_lines rest instructions current_file (current_instructions @ [strip line])
      else parse_lines rest instructions current_file current_instructions)"

definition parse_edit_instructions :: "string \<Rightarrow> files" where
  "parse_edit_instructions response = parse_lines (split_nl response) [] None []"

definition edit_prompt :: "prompts \<Rightarrow> string \<Rightarrow> string \<Rightarrow> string \<Rightarrow> string" where
  "edit_prompt pr file_path file_text instructions =
     APPLY_EDITS_PROMPT pr @ ''\<newline>\<newline>Original File: '' @ file_path
     @ ''\<newline>Content:\<newline>'' @ file_text @ ''\<newline>\<newline>Edit Instructions:\<newline>''
     @ instructions @ ''\<newline>\<newline>Updated File Content:''"

text \<open>The loop over \<open>original_files.items()\<close>, with \<open>modified_files\<close> as accumulator.\<close>

fun edit_loop ::
  "model_calls \<Rightarrow> prompts \<Rightarrow> files \<Rightarrow> files \<Rightarrow> files \<Rightarrow> 'fs world \<Rightarrow> files \<times> 'fs world"
where
  "edit_loop mm pr edit_instructions [] modified_files w = (modified_files, w)"
| "edit_loop mm pr edit_instructions ((file_path, file_text) # rest) modified_files w =
     (case map_of edit_instructions file_path of
        Some instructions \<Rightarrow>
          (case chat_with_ai mm pr (edit_prompt pr file_path file_text instructions)
                  True 0 None w of
             (Some response, w') \<Rightarrow>
               if response \<noteq> []
               then edit_loop mm pr edit_instructions rest
                      (AList.update file_path (strip response) modified_files) w'
               else edit_loop mm pr edit_instructions rest modified_files w'
           | (None, w') \<Rightarrow> edit_loop mm pr edit_instructions rest modified_files w')
      | None \<Rightarrow>
          edit_loop mm pr edit_instructions rest
            (AList.update file_path file_text modified_files) w)"

definition apply_edit_instructions ::
  "model_calls \<Rightarrow> prompts \<Rightarrow> files \<Rightarrow> files \<Rightarrow> 'fs world \<Rightarrow> files \<times> 'fs world"
where
  "apply_edit_instructions mm pr edit_instructions original_files w =
     edit_loop mm pr edit_instructions original_files [] w"

subsection \<open>\<open>add_file_to_context\<close> and the \<open>/add\<close> command of \<open>main\<close>\<close>

definition MAX_FILE_SIZE :: nat where
  "MAX_FILE_SIZE = 200 * 1024"

definition MAX_TOTAL_SIZE :: nat where
  "MAX_TOTAL_SIZE = MAX_FILE_SIZE * 3"

text \<open>
  The calls with which the module reads the disk are a parameter as well: the tests of
  \<open>os.path\<close> and \<open>os.access\<close>, the size in bytes that \<open>os.path.getsize\<close> reports, the
  first 1024 bytes of a file (their numbers), the text of a file as \<open>open(...).read()\<close>
  decodes it, and \<open>fnmatch.fnmatch\<close>. A directory is given by what \<open>os.walk\<close> finds
  below it: its sub-directories by name and the names of its files.
\<close>

datatype tree = Tree "(string \<times> tree) list" "string list"

record 'fs read_calls =
  exists_on_disk :: "'fs \<Rightarrow> string \<Rightarrow> bool"
  access_R_OK :: "'fs \<Rightarrow> string \<Rightarrow> bool"
  isfile :: "'fs \<Rightarrow> string \<Rightarrow> bool"
  directory_tree :: "'fs \<Rightarrow> string \<Rightarrow> tree option"
  getsize :: "'fs \<Rightarrow> string \<Rightarrow> nat"
  read_chunk :: "'fs \<Rightarrow> string \<Rightarrow> exc + nat list"
  read_text :: "'fs \<Rightarrow> string \<Rightarrow> exc + string"
  fnmatch :: "string \<Rightarrow> string \<Rightarrow> bool"

text \<open>\<open>is_binary_file\<close>. The bytes that count as text are 7, 8, 9, 10, 12, 13, 27 and
  32 to 255. The test \<open>len(non_text) / len(chunk) > 0.30\<close> is on at most 1024 bytes,
  where it agrees with the comparison of \<open>10 * len(non_text)\<close> and \<open>3 * len(chunk)\<close>;
  on an empty file the division raises, and every exception makes the file binary.\<close>

definition text_characters :: "nat list" where
  "text_characters = [7, 8, 9, 10, 12, 13, 27] @ [0x20..<0x100]"

definition is_binary_file :: "'fs read_calls \<Rightarrow> 'fs \<Rightarrow> string \<Rightarrow> bool" where
  "is_binary_file rc t file_path =
     (case read_chunk rc t file_path of
        Inl e \<Rightarrow> True
      | Inr chunk \<Rightarrow>
          if 0 \<in> set chunk then True
          else if chunk = [] then True
          else 3 * length chunk
                 < 10 * length (filter (\<lambda>b. b \<notin> set text_characters) chunk))"

text \<open>\<open>os.path.join\<close> of \<open>posixpath\<close> for two parts.\<close>

definition path_join :: "string \<Rightarrow> string \<Rightarrow> string" where
  "path_join a b =
     (if startswith b ''/'' then b
      else if a = [] \<or> last a = CHR ''/'' then a @ b
      else a @ ''/'' @ b)"

definition load_gitignore_patterns ::
  "'fs read_calls \<Rightarrow> 'fs \<Rightarrow> string \<Rightarrow> exc + string list"
where
  "load_gitignore_patterns rc t directory =
     (let gitignore_path = path_join directory ''.gitignore''
      in if exists_on_disk rc t gitignore_path then
           (case read_text rc t gitignore_path of
              Inl e \<Rightarrow> Inl e
            | Inr text \<Rightarrow>
                Inr (filter (\<lambda>line. line \<noteq> [] \<and> \<not> startswith line ''#'')
                       (map strip (split_nl text))))
         else Inr [])"

definition should_ignore :: "'fs read_calls \<Rightarrow> string \<Rightarrow> string list \<Rightarrow> bool" where
  "should_ignore rc file_path patterns = list_ex (\<lambda>pattern. fnmatch rc file_path pattern) patterns"

text \<open>\<open>sub in s\<close> for strings.\<close>

fun contains :: "string \<Rightarrow> string \<Rightarrow> bool" where
  "contains [] sub = (sub = [])"
| "contains (c # cs) sub = (startswith (c # cs) sub \<or> contains cs sub)"

definition excluded_dirs :: "string list" where
  "excluded_dirs =
     [''__pycache__'', ''.git'', ''node_modules'', ''venv'', ''env'', ''.vscode'', ''.idea'',
      ''dist'', ''build'', ''__mocks__'', ''coverage'', ''.pytest_cache'', ''.mypy_cache'',
      ''logs'', ''temp'', ''tmp'', ''secrets'', ''private'', ''cache'', ''addons'']"

text \<open>\<open>add_file_to_context\<close>, on the dictionary and on what has been printed so far. An
  exception that no handler of the function catches is its result.\<close>

definition add_file_to_context ::
  "'fs read_calls \<Rightarrow> 'fs \<Rightarrow> string \<Rightarrow> files \<times> out list \<Rightarrow> exc + (files \<times> out list)"
where
  "add_file_to_context rc t file_path st =
     (case st of (added_files, printed) \<Rightarrow>
      (case (if exists_on_disk rc t ''.gitignore'' then load_gitignore_patterns rc t ''.''
             else Inr []) of
         Inl e \<Rightarrow> Inl e
       | Inr gitignore_patterns \<Rightarrow>
           if \<not> exists_on_disk rc t file_path then
             Inr (added_files,
                  printed @ [Colored (''Path not found: '' @ file_path) ''red''])
           else if \<not> access_R_OK rc t file_path then
             Inr (added_files,
                  printed @ [Colored (''Cannot read file/directory: '' @ file_path) ''red''])
           else if isfile rc t file_path then
             (if list_ex (\<lambda>ex_dir. contains file_path ex_dir) excluded_dirs then
                Inr (added_files, printed)
              else if gitignore_patterns \<noteq> []
                      \<and> should_ignore rc file_path gitignore_patterns then
                Inr (added_files, printed)
              else if is_binary_file rc t file_path then Inr (added_files, printed)
              else if getsize rc t file_path > MAX_FILE_SIZE then Inr (added_files, printed)
              else
                (case read_text rc t file_path of
                   Inr file_text \<Rightarrow>
                     Inr (AList.update file_path file_text added_files, printed)
                 | Inl e \<Rightarrow>
                     if isinstance e (Builtin ''IOError'') then
                       Inr (added_files,
                            printed @ [Colored (''Error reading file '' @ file_path) ''red''])
                     else if isinstance e (Builtin ''MemoryError'') then
                       Inr (added_files,
                            printed @ [Colored ''Out of memory error - file too large''
                                         ''red''])
                     else Inl e))
           else Inr (added_files, printed)))"

text \<open>The files that the loop over \<open>os.walk(path)\<close> visits, in its order: the files of a
  directory, then its sub-directories in turn, except the three that the loop removes
  from \<open>dirs\<close>.\<close>

definition pruned_dirs :: "string list" where
  "pruned_dirs = [''__pycache__'', ''.git'', ''node_modules'']"

fun walk_files :: "string \<Rightarrow> tree \<Rightarrow> string list"
  and walk_subdirs :: "string \<Rightarrow> (string \<times> tree) list \<Rightarrow> string list"
where
  "walk_files root (Tree dirs files_in_dir) =
     map (path_join root) files_in_dir @ walk_subdirs root dirs"
| "walk_subdirs root [] = []"
| "walk_subdirs root ((d, sub) # rest) =
     (if d \<in> set pruned_dirs then [] else walk_files (path_join root d) sub)
     @ walk_subdirs root rest"

fun add_files ::
  "'fs read_calls \<Rightarrow> 'fs \<Rightarrow> string list \<Rightarrow> files \<times> out list \<Rightarrow> exc + (files \<times> out list)"
where
  "add_files rc t [] st = Inr st"
| "add_files rc t (file_path # rest) st =
     (case add_file_to_context rc t file_path st of
        Inl e \<Rightarrow> Inl e
      | Inr st' \<Rightarrow> add_files rc t rest st')"

text \<open>The body of \<open>for path in paths\<close>, and the loop.\<close>

definition add_path ::
  "'fs read_calls \<Rightarrow> 'fs \<Rightarrow> string \<Rightarrow> files \<times> out list \<Rightarrow> exc + (files \<times> out list)"
where
  "add_path rc t path st =
     (if isfile rc t path then add_file_to_context rc t path st
      else (case directory_tree rc t path of
              Some tr \<Rightarrow> add_files rc t (walk_files path tr) st
            | None \<Rightarrow> Inr st))"

fun add_paths ::
  "'fs read_calls \<Rightarrow> 'fs \<Rightarrow> string list \<Rightarrow> files \<times> out list \<Rightarrow> exc + (files \<times> out list)"
where
  "add_paths rc t [] st = Inr st"
| "add_paths rc t (path # rest) st =
     (case add_path rc t path st of
        Inl e \<Rightarrow> Inl e
      | Inr st' \<Rightarrow> add_paths rc t rest st')"

text \<open>What the \<open>while True\<close> loop of \<open>main\<close> does after a command: the next iteration
  (\<open>continue\<close> or the end of the body), or \<open>break\<close>.\<close>

datatype loop_exit = NextCommand | Break

text \<open>The branch \<open>user_input.startswith("/add")\<close>: the dictionary afterwards, what was
  printed, and how the loop of \<open>main\<close> goes on. The total is the sum of \<open>len(content)\<close>,
  the number of characters of each text held.\<close>

definition total_size :: "files \<Rightarrow> nat" where
  "total_size added_files = sum_list (map (\<lambda>(path, file_text). length file_text) added_files)"

definition add_command ::
  "'fs read_calls \<Rightarrow> 'fs \<Rightarrow> string \<Rightarrow> files \<Rightarrow> exc + (files \<times> out list \<times> loop_exit)"
where
  "add_command rc t user_input added_files =
     (let paths = tl (split_ws user_input)
      in if paths = [] then Inr (added_files, [], NextCommand)
         else
           (case add_paths rc t paths (added_files, []) of
              Inl e \<Rightarrow> Inl e
            | Inr (added, printed) \<Rightarrow>
                if total_size added > MAX_TOTAL_SIZE
                then Inr ([],
                          printed @ [Colored ''Total size of files is too large. Please reduce the number/size of files.'' ''red''],
                          Break)
                else Inr (added, printed, NextCommand)))"

section \<open>Notions used to state the properties\<close>

text \<open>The request that \<open>apply_edit_instructions\<close> sends for one file of the original
  set: none when the path has no entry in the instruction map, otherwise the single user
  message that \<open>chat_with_ai\<close> builds from the edit prompt of that file.\<close>

definition edit_request :: "prompts \<Rightarrow> files \<Rightarrow> string \<times> string \<Rightarrow> ChatMessage list option" where
  "edit_request pr edit_instructions = (\<lambda>(file_path, file_text).
     case map_of edit_instructions file_path of
       None \<Rightarrow> None
     | Some instructions \<Rightarrow>
         Some [\<lparr>role = ''user'',
                content = EDIT_INSTRUCTION_PROMPT pr @ ''\<newline>\<newline>User request: ''
                          @ edit_prompt pr file_path file_text instructions\<rparr>])"

text \<open>
  The edit response as the specification describes it, independently of the parser: the text
  is cut at the lines that start with \<open>File: \<close>; \<open>block_after\<close> collects the non-empty
  lines, trimmed, up to the next such line, and \<open>marker_blocks\<close> lists, in the order of
  the text, every marker's path with the newline-joined block that follows it.
\<close>

fun block_after :: "string list \<Rightarrow> string list" where
  "block_after [] = []"
| "block_after (line # rest) =
     (if startswith line ''File: '' then []
      else if strip line \<noteq> [] then strip line # block_after rest
      else block_after rest)"

fun marker_blocks :: "string list \<Rightarrow> (string \<times> string) list" where
  "marker_blocks [] = []"
| "marker_blocks (line # rest) =
     (if startswith line ''File: ''
      then (strip (drop 6 line), join_nl (block_after rest)) # marker_blocks rest
      else marker_blocks rest)"

text \<open>The user message of a retry: the text of the \<open>ValueError\<close> followed by the request
  to answer again.\<close>

definition retry_text :: string where
  "retry_text = ''No code blocks found in the AI response. Please provide the creation instructions again using the specified format.''"

text \<open>The UTF-8 encoding of a text whose code points are below 256, as the numbers of
  its bytes: one byte below 128, two bytes from 128 on. Its length is the size of the
  text in bytes.\<close>

definition utf8_char :: "char \<Rightarrow> nat list" where
  "utf8_char c =
     (if (of_char c :: nat) < 128 then [of_char c]
      else [192 + of_char c div 64, 128 + of_char c mod 64])"

definition utf8_encode :: "string \<Rightarrow> nat list" where
  "utf8_encode s = concat (map utf8_char s)"

definition size_in_bytes :: "files \<Rightarrow> nat" where
  "size_in_bytes added_files =
     sum_list (map (\<lambda>(path, file_text). length (utf8_encode file_text)) added_files)"

section \<open>Example values\<close>

text \<open>A manager for the Ollama entry of the registry whose client is already built, a
  manager for the OpenAI entry whose client is not built yet, and provider libraries
  whose transports refuse the connection, respectively whose Ollama transport answers
  with a reply that carries its own token counters.\<close>

definition ollama_manager :: ModelManager where
  "ollama_manager =
     \<lparr>full_model_name = ''ollama/qwen2.5-coder:14b'', provider = OLLAMA,
      model_name = ''qwen2.5-coder:14b'', client_memo = Some AsyncClient\<rparr>"

definition openai_manager :: ModelManager where
  "openai_manager =
     \<lparr>full_model_name = ''openai/gpt-4o'', provider = OPENAI,
      model_name = ''gpt-4o'', client_memo = None\<rparr>"

definition refused :: exc where
  "refused = Exc (Builtin ''ConnectionError'') ''connection refused'' None"

definition refusing_libs :: libs where
  "refusing_libs =
     \<lparr>construct = (\<lambda>_. None),
      ollama_chat_api = (\<lambda>_ _. Inl refused),
      anthropic_create_api = (\<lambda>_ _ _. Inl refused),
      openai_create_api = (\<lambda>_ _. Inl refused)\<rparr>"

definition counting_reply :: ollama_response where
  "counting_reply =
     \<lparr>o_message = Some \<lparr>om_content = Some ''hi'', om_tool_calls = None\<rparr>,
      prompt_eval_count = Some 26, eval_count = Some 298\<rparr>"

definition answering_libs :: libs where
  "answering_libs =
     \<lparr>construct = (\<lambda>_. None),
      ollama_chat_api = (\<lambda>_ _. Inr counting_reply),
      anthropic_create_api = (\<lambda>_ _ _. Inl refused),
      openai_create_api = (\<lambda>_ _. Inl refused)\<rparr>"

text \<open>A small in-memory file system on which the examples run: a table from path names,
  taken literally, to regular files (text, writable) and directories (writable).\<close>

datatype node = RegularFile string bool | Directory bool

type_synonym memfs = "string \<rightharpoonup> node"

definition mem_os :: "memfs os_calls" where
  "mem_os =
     \<lparr>path_exists = (\<lambda>t p. t p \<noteq> None),
      access_W_OK =
        (\<lambda>t p. case t p of
                  None \<Rightarrow> False
                | Some (RegularFile _ writable) \<Rightarrow> writable
                | Some (Directory writable) \<Rightarrow> writable),
      makedirs =
        (\<lambda>t p. case t p of
                  None \<Rightarrow> (None, t(p \<mapsto> Directory True))
                | Some (Directory _) \<Rightarrow> (None, t)
                | Some (RegularFile _ _) \<Rightarrow>
                    (Some (Exc (Builtin ''FileExistsError'') p None), t)),
      write_text =
        (\<lambda>t p s. case t p of
                    None \<Rightarrow> (None, t(p \<mapsto> RegularFile s True))
                  | Some (RegularFile _ _) \<Rightarrow> (None, t(p \<mapsto> RegularFile s True))
                  | Some (Directory _) \<Rightarrow>
                      (Some (Exc (Builtin ''IsADirectoryError'') p None), t))\<rparr>"

text \<open>The state of the module when a session starts, on a given file system.\<close>

definition session_start :: "'fs \<Rightarrow> 'fs world" where
  "session_start t =
     \<lparr>fs = t, stdout = [], slept = [], conversation_history = [],
      last_ai_response = None, requests = []\<rparr>"

text \<open>A model that answers every request with the same sentence, and short stand-ins
  for the two prompt texts.\<close>

definition prose_model :: model_calls where
  "prose_model = (\<lambda>n messages.
     Inr \<lparr>r_content = ''Sorry, no.'', r_tool_calls = [], r_usage = []\<rparr>)"

definition short_prompts :: prompts where
  "short_prompts = \<lparr>EDIT_INSTRUCTION_PROMPT = ''EDIT'', APPLY_EDITS_PROMPT = ''APPLY''\<rparr>"

text \<open>A history of ten turn pairs, that is twenty entries.\<close>

definition ten_pairs :: "string list" where
  "ten_pairs =
     [''q1'', ''a1'', ''q2'', ''a2'', ''q3'', ''a3'', ''q4'', ''a4'', ''q5'', ''a5'',
      ''q6'', ''a6'', ''q7'', ''a7'', ''q8'', ''a8'', ''q9'', ''a9'', ''q10'', ''a10'']"


definition single_file_response :: string where
  "single_file_response = fence @ ''\<newline>### FILE: a/b.txt\<newline>X\<newline>'' @ fence"


text \<open>A disk of readable text files stored in UTF-8, without directories and without a
  \<open>.gitignore\<close>: a table from path names to the texts. On it, four files of 102400
  times the letter \<open>e\<close> with acute accent (code point 233), and four files of 153601
  times the letter \<open>x\<close>.\<close>

type_synonym text_disk = "string \<rightharpoonup> string"

definition text_os :: "text_disk read_calls" where
  "text_os =
     \<lparr>exists_on_disk = (\<lambda>t p. t p \<noteq> None),
      access_R_OK = (\<lambda>t p. t p \<noteq> None),
      isfile = (\<lambda>t p. t p \<noteq> None),
      directory_tree = (\<lambda>t p. None),
      getsize = (\<lambda>t p. case t p of None \<Rightarrow> 0 | Some s \<Rightarrow> length (utf8_encode s)),
      read_chunk =
        (\<lambda>t p. case t p of
                  None \<Rightarrow> Inl (Exc (Builtin ''FileNotFoundError'') p None)
                | Some s \<Rightarrow> Inr (take 1024 (utf8_encode s))),
      read_text =
        (\<lambda>t p. case t p of
                  None \<Rightarrow> Inl (Exc (Builtin ''FileNotFoundError'') p None)
                | Some s \<Rightarrow> Inr s),
      fnmatch = (\<lambda>name pattern. name = pattern)\<rparr>"

definition accented :: string where
  "accented = replicate 102400 (CHR 0xE9)"

definition accented_disk :: text_disk where
  "accented_disk =
     [''e1.txt'' \<mapsto> accented, ''e2.txt'' \<mapsto> accented, ''e3.txt'' \<mapsto> accented,
      ''e4.txt'' \<mapsto> accented]"

definition plain :: string where
  "plain = replicate 153601 (CHR ''x'')"

definition plain_disk :: text_disk where
  "plain_disk =
     [''p1.txt'' \<mapsto> plain, ''p2.txt'' \<mapsto> plain, ''p3.txt'' \<mapsto> plain, ''p4.txt'' \<mapsto> plain]"

section \<open>Properties of the model manager\<close>

subsection \<open>Construction with a model that the registry does not have\<close>

lemma load_model_config_unknown:
  assumes "env ''MODEL'' = Some m" and "m \<notin> set (map fst MODEL_CONFIG)"
  shows "load_model_config env =
     Inl (if m = [] then
            Exc ModelConfigurationError ''MODEL not found in environment variables'' None
          else Exc ModelNotFoundError (''Model '' @ m @ '' not found in configuration'') None)"
  using assms by (simp add: load_model_config_def)

lemma ModelManager_init_lazy:
  "ModelManager_init env = Inr self \<Longrightarrow> client_memo self = None"
  by (auto simp: ModelManager_init_def split: sum.splits prod.splits)

text \<open>
  Claim C3, as the code has it. When the selected model identifier is not a key of
  \<open>MODEL_CONFIG\<close>, constructing the manager fails in \<open>load_model_config\<close>, before
  anything else runs, so that no manager and no client exist afterwards. The exception is
  a \<open>ModelNotFoundError\<close> for a non-empty identifier and a \<open>ModelConfigurationError\<close>
  for the empty one; both are \<open>ModelError\<close>s, which is what the caller catches.
\<close>

theorem init_unknown_model:
  assumes "env ''MODEL'' = Some m" and "m \<notin> set (map fst MODEL_CONFIG)"
  shows "ModelManager_init env =
     Inl (if m = [] then
            Exc ModelConfigurationError ''MODEL not found in environment variables'' None
          else Exc ModelNotFoundError (''Model '' @ m @ '' not found in configuration'') None)
   \<and> (\<forall>e. ModelManager_init env = Inl e \<longrightarrow> isinstance e ModelError)"
  using assms
  by (simp add: ModelManager_init_def load_model_config_unknown isinstance_def)

text \<open>The theorem at the identifier \<open>foo/bar\<close>, which the registry does not have.\<close>

theorem init_unknown_model_witness:
  "[''MODEL'' \<mapsto> ''foo/bar''] ''MODEL'' = Some ''foo/bar''
   \<and> ''foo/bar'' \<notin> set (map fst MODEL_CONFIG)
   \<and> ModelManager_init [''MODEL'' \<mapsto> ''foo/bar''] =
       Inl (Exc ModelNotFoundError ''Model foo/bar not found in configuration'' None)"
  using init_unknown_model [of "[''MODEL'' \<mapsto> ''foo/bar'']" "''foo/bar''"]
  by (simp add: MODEL_CONFIG_def)

text \<open>
  Claim C3 as the specification words it fails: for the identifier \<open>foo/bar\<close> the
  constructor raises \<open>ModelNotFoundError\<close>, which is not a \<open>ModelConfigurationError\<close>.
\<close>

theorem init_unknown_model_not_configuration_error:
  "''foo/bar'' \<notin> set (map fst MODEL_CONFIG)
   \<and> ModelManager_init [''MODEL'' \<mapsto> ''foo/bar''] =
       Inl (Exc ModelNotFoundError ''Model foo/bar not found in configuration'' None)
   \<and> \<not> isinstance (Exc ModelNotFoundError ''Model foo/bar not found in configuration'' None)
         ModelConfigurationError"
  by (simp add: ModelManager_init_def load_model_config_def MODEL_CONFIG_def isinstance_def)

subsection \<open>Failures inside \<open>chat_completion\<close>\<close>

text \<open>A failure of the transport reaches the handler of \<open>chat_completion\<close> unchanged,
  for each of the three providers, whether the client was built before or is built by
  this call.\<close>

lemma ollama_transport_failure:
  assumes "provider self = OLLAMA" and "client lib env self = (Inr c, self')"
    and "ollama_chat_api lib (model_name self) (copy_messages messages) = Inl e"
  shows "dispatch_chat lib env self messages = (Inl e, self')"
  using assms
  by (simp add: dispatch_chat_def ollama_chat_def format_messages_def)

lemma openai_transport_failure:
  assumes "provider self = OPENAI" and "client lib env self = (Inr c, self')"
    and "openai_create_api lib (model_name self) (copy_messages messages) = Inl e"
  shows "dispatch_chat lib env self messages = (Inl e, self')"
  using assms
  by (simp add: dispatch_chat_def openai_chat_def format_messages_def)

lemma anthropic_transport_failure:
  assumes "provider self = ANTHROPIC" and "client lib env self = (Inr c, self')"
    and "map_of MODEL_CONFIG (full_model_name self) = Some config"
    and "anthropic_create_api lib (model_name self) (max_tokens config)
           (copy_messages (copy_messages messages)) = Inl e"
  shows "dispatch_chat lib env self messages = (Inl e, self')"
  using assms
  by (simp add: dispatch_chat_def anthropic_chat_def format_messages_def)

lemma chat_completion_handler:
  assumes "dispatch_chat lib env self messages = (Inl e, self')" and "is_Exception (cls e)"
  shows "chat_completion lib env self messages =
           (Inl (Exc ModelAPIError
                   (''Error in chat completion with '' @ provider_str (provider self)
                    @ '': '' @ msg e) (Some e)), self')"
  using assms by (simp add: chat_completion_def)

text \<open>
  Claim C6. Let the transport of the manager's provider raise \<open>e\<close>, an instance of
  \<open>Exception\<close>, for the messages of the call, the client being the memoised one or the
  one this call builds. Then \<open>chat_completion\<close> raises a \<open>ModelAPIError\<close> whose text ends
  with \<open>str(e)\<close> and whose context is \<open>e\<close> itself. Moreover every instance of
  \<open>Exception\<close> that leaves \<open>chat_completion\<close>, whatever its origin, is of class
  \<open>ModelAPIError\<close> and carries the exception it replaces as its context, so that no
  exception type of a provider library reaches the caller.
\<close>

theorem chat_completion_wraps:
  "(is_Exception (cls e) \<longrightarrow>
    client lib env self = (Inr c, self') \<longrightarrow>
      (provider self = OLLAMA
         \<and> ollama_chat_api lib (model_name self) (copy_messages messages) = Inl e)
      \<or> (provider self = OPENAI
         \<and> openai_create_api lib (model_name self) (copy_messages messages) = Inl e)
      \<or> (provider self = ANTHROPIC
         \<and> (\<exists>config. map_of MODEL_CONFIG (full_model_name self) = Some config
               \<and> anthropic_create_api lib (model_name self) (max_tokens config)
                    (copy_messages (copy_messages messages)) = Inl e)) \<longrightarrow>
    chat_completion lib env self messages =
      (Inl (Exc ModelAPIError
              (''Error in chat completion with '' @ provider_str (provider self)
               @ '': '' @ msg e) (Some e)), self'))
   \<and> (\<forall>x. fst (chat_completion lib env self messages) = Inl x \<longrightarrow> is_Exception (cls x) \<longrightarrow>
          cls x = ModelAPIError
          \<and> (\<exists>cause. ctx x = Some cause
                \<and> fst (dispatch_chat lib env self messages) = Inl cause
                \<and> msg x = ''Error in chat completion with '' @ provider_str (provider self)
                            @ '': '' @ msg cause))"
proof (rule conjI, intro impI)
  assume ex: "is_Exception (cls e)" and cl: "client lib env self = (Inr c, self')"
    and tr: "(provider self = OLLAMA
         \<and> ollama_chat_api lib (model_name self) (copy_messages messages) = Inl e)
      \<or> (provider self = OPENAI
         \<and> openai_create_api lib (model_name self) (copy_messages messages) = Inl e)
      \<or> (provider self = ANTHROPIC
         \<and> (\<exists>config. map_of MODEL_CONFIG (full_model_name self) = Some config
               \<and> anthropic_create_api lib (model_name self) (max_tokens config)
                    (copy_messages (copy_messages messages)) = Inl e))"
  from tr have "dispatch_chat lib env self messages = (Inl e, self')"
  proof (elim disjE conjE exE)
    assume "provider self = OLLAMA"
      and "ollama_chat_api lib (model_name self) (copy_messages messages) = Inl e"
    with cl show ?thesis by (simp add: ollama_transport_failure)
  next
    assume "provider self = OPENAI"
      and "openai_create_api lib (model_name self) (copy_messages messages) = Inl e"
    with cl show ?thesis by (simp add: openai_transport_failure)
  next
    fix config
    assume "provider self = ANTHROPIC"
      and "map_of MODEL_CONFIG (full_model_name self) = Some config"
      and "anthropic_create_api lib (model_name self) (max_tokens config)
             (copy_messages (copy_messages messages)) = Inl e"
    with cl show ?thesis by (simp add: anthropic_transport_failure)
  qed
  then show "chat_completion lib env self messages =
      (Inl (Exc ModelAPIError
              (''Error in chat completion with '' @ provider_str (provider self)
               @ '': '' @ msg e) (Some e)), self')"
    using ex by (rule chat_completion_handler)
next
  have "cls x = ModelAPIError
          \<and> (\<exists>cause. ctx x = Some cause
                \<and> fst (dispatch_chat lib env self messages) = Inl cause
                \<and> msg x = ''Error in chat completion with '' @ provider_str (provider self)
                            @ '': '' @ msg cause)"
    if out: "fst (chat_completion lib env self messages) = Inl x"
      and ex: "is_Exception (cls x)" for x
  proof -
  obtain r s where d: "dispatch_chat lib env self messages = (r, s)"
    by (cases "dispatch_chat lib env self messages")
  show ?thesis
  proof (cases r)
    case (Inr response)
    with d out show ?thesis by (simp add: chat_completion_def)
  next
    case (Inl cause)
    show ?thesis
    proof (cases "is_Exception (cls cause)")
      case True
      with d Inl out show ?thesis by (auto simp: chat_completion_def)
    next
      case False
      with d Inl out have "x = cause" by (simp add: chat_completion_def)
      with False ex show ?thesis by simp
    qed
  qed
  qed
  then show "\<forall>x. fst (chat_completion lib env self messages) = Inl x \<longrightarrow> is_Exception (cls x) \<longrightarrow>
          cls x = ModelAPIError
          \<and> (\<exists>cause. ctx x = Some cause
                \<and> fst (dispatch_chat lib env self messages) = Inl cause
                \<and> msg x = ''Error in chat completion with '' @ provider_str (provider self)
                            @ '': '' @ msg cause)"
    by (intro allI impI)
qed

text \<open>The theorem where the transport refuses the connection, once for the Ollama manager
  with its memoised client and once for the OpenAI manager, whose client this call
  builds.\<close>

theorem chat_completion_wraps_witness:
  "is_Exception (cls refused)
   \<and> ollama_chat_api refusing_libs (model_name ollama_manager)
        (copy_messages [\<lparr>role = ''user'', content = ''hello''\<rparr>]) = Inl refused
   \<and> chat_completion refusing_libs Map.empty ollama_manager
        [\<lparr>role = ''user'', content = ''hello''\<rparr>]
      = (Inl (Exc ModelAPIError
           ''Error in chat completion with ModelProvider.OLLAMA: connection refused''
           (Some refused)), ollama_manager)
   \<and> client refusing_libs [''OPENAI_API_KEY'' \<mapsto> ''k''] openai_manager
      = (Inr (AsyncOpenAI (Some ''k'')),
         openai_manager\<lparr>client_memo := Some (AsyncOpenAI (Some ''k''))\<rparr>)
   \<and> openai_create_api refusing_libs (model_name openai_manager)
        (copy_messages [\<lparr>role = ''user'', content = ''hello''\<rparr>]) = Inl refused
   \<and> chat_completion refusing_libs [''OPENAI_API_KEY'' \<mapsto> ''k''] openai_manager
        [\<lparr>role = ''user'', content = ''hello''\<rparr>]
      = (Inl (Exc ModelAPIError
           ''Error in chat completion with ModelProvider.OPENAI: connection refused''
           (Some refused)),
         openai_manager\<lparr>client_memo := Some (AsyncOpenAI (Some ''k''))\<rparr>)"
proof -
  let ?m = "[\<lparr>role = ''user'', content = ''hello''\<rparr>]"
  let ?env = "[''OPENAI_API_KEY'' \<mapsto> ''k'']"
  let ?built = "openai_manager\<lparr>client_memo := Some (AsyncOpenAI (Some ''k''))\<rparr>"
  have ex: "is_Exception (cls refused)"
    by (simp add: refused_def base_only_builtins_def)
  have c1: "client refusing_libs Map.empty ollama_manager = (Inr AsyncClient, ollama_manager)"
    by (simp add: client_def ollama_manager_def)
  have t1: "ollama_chat_api refusing_libs (model_name ollama_manager) (copy_messages ?m)
      = Inl refused"
    by (simp add: refusing_libs_def)
  have p1: "provider ollama_manager = OLLAMA"
    by (simp add: ollama_manager_def)
  have c2: "client refusing_libs ?env openai_manager = (Inr (AsyncOpenAI (Some ''k'')), ?built)"
    by (simp add: client_def initialize_client_def openai_manager_def refusing_libs_def)
  have t2: "openai_create_api refusing_libs (model_name openai_manager) (copy_messages ?m)
      = Inl refused"
    by (simp add: refusing_libs_def)
  have p2: "provider openai_manager = OPENAI"
    by (simp add: openai_manager_def)
  have r1: "chat_completion refusing_libs Map.empty ollama_manager ?m
      = (Inl (Exc ModelAPIError
           (''Error in chat completion with '' @ provider_str (provider ollama_manager)
            @ '': '' @ msg refused) (Some refused)), ollama_manager)"
    using chat_completion_wraps [of refused refusing_libs Map.empty ollama_manager
        AsyncClient ollama_manager ?m] ex c1 t1 p1
    by simp
  have r2: "chat_completion refusing_libs ?env openai_manager ?m
      = (Inl (Exc ModelAPIError
           (''Error in chat completion with '' @ provider_str (provider openai_manager)
            @ '': '' @ msg refused) (Some refused)), ?built)"
    using chat_completion_wraps [of refused refusing_libs ?env openai_manager
        "AsyncOpenAI (Some ''k'')" ?built ?m] ex c2 t2 p2
    by simp
  have m1: "''Error in chat completion with '' @ provider_str (provider ollama_manager)
        @ '': '' @ msg refused
      = ''Error in chat completion with ModelProvider.OLLAMA: connection refused''"
    by (simp add: ollama_manager_def refused_def)
  have m2: "''Error in chat completion with '' @ provider_str (provider openai_manager)
        @ '': '' @ msg refused
      = ''Error in chat completion with ModelProvider.OPENAI: connection refused''"
    by (simp add: openai_manager_def refused_def)
  from ex t1 r1 [unfolded m1] c2 t2 r2 [unfolded m2] show ?thesis
    by (intro conjI)
qed

subsection \<open>Token usage of Ollama replies\<close>

text \<open>
  Claim C9. The normalised response built from an Ollama reply has \<open>total_tokens\<close> equal
  to 0, whatever the reply holds (its own counters \<open>prompt_eval_count\<close> and
  \<open>eval_count\<close> are not read); so every response that \<open>chat_completion\<close> returns for a
  manager of the Ollama provider has the usage dictionary \<open>{"total_tokens": 0}\<close>.
\<close>

theorem ollama_total_tokens_zero:
  "map_of (r_usage (format_ollama_response response)) ''total_tokens'' = Some 0
   \<and> (provider self = OLLAMA \<longrightarrow>
        chat_completion lib env self messages = (Inr r, self') \<longrightarrow>
        r_usage r = [(''total_tokens'', 0)])"
  by (auto simp: format_ollama_response_def chat_completion_def dispatch_chat_def
        ollama_chat_def split: sum.splits prod.splits)

text \<open>The theorem at a reply that reports 26 prompt tokens and 298 generated tokens.\<close>

theorem ollama_total_tokens_zero_witness:
  "provider ollama_manager = OLLAMA
   \<and> chat_completion answering_libs Map.empty ollama_manager
        [\<lparr>role = ''user'', content = ''hello''\<rparr>]
      = (Inr \<lparr>r_content = ''hi'', r_tool_calls = [], r_usage = [(''total_tokens'', 0)]\<rparr>,
         ollama_manager)
   \<and> eval_count counting_reply = Some 298"
  using ollama_total_tokens_zero [of counting_reply ollama_manager answering_libs Map.empty
      "[\<lparr>role = ''user'', content = ''hello''\<rparr>]"
      "\<lparr>r_content = ''hi'', r_tool_calls = [], r_usage = [(''total_tokens'', 0)]\<rparr>"
      ollama_manager]
  by (simp add: chat_completion_def dispatch_chat_def ollama_chat_def client_def
      format_messages_def format_ollama_response_def copy_messages_def
      ollama_manager_def answering_libs_def counting_reply_def)

section \<open>Properties of the session: history and added files\<close>

lemma chat_with_ai_history:
  assumes "chat_with_ai mm pr user_message False retry_count added_files w = (Some a, w')"
  shows "conversation_history w' =
           (let h = conversation_history w
                  @ [outgoing_user_message (conversation_history w) user_message False added_files, a]
            in if length h > 20 then last20 h else h)"
  using assms
  by (auto simp: chat_with_ai_def Let_def split: sum.splits)

text \<open>
  Claim C5. A request that is not an edit request and that the model answers appends the
  outgoing user message and the answer to the history and then keeps the last twenty
  entries: the new history is the old one with the pair appended and the oldest entries
  dropped, it has twenty entries whenever the append brought it past twenty, and when
  the history already held twenty entries exactly its oldest pair is gone.
\<close>

theorem conversation_truncated_fifo:
  assumes "chat_with_ai mm pr user_message False retry_count added_files w = (Some a, w')"
    and "um = outgoing_user_message (conversation_history w) user_message False added_files"
  shows "conversation_history w'
           = drop (length (conversation_history w) + 2 - 20) (conversation_history w @ [um, a])
    \<and> length (conversation_history w') = min 20 (length (conversation_history w) + 2)
    \<and> (length (conversation_history w) + 2 > 20 \<longrightarrow> length (conversation_history w') = 20)
    \<and> (length (conversation_history w) = 20 \<longrightarrow>
          conversation_history w' = drop 2 (conversation_history w) @ [um, a])"
proof -
  let ?h = "conversation_history w @ [um, a]"
  have h': "conversation_history w' = (if length ?h > 20 then last20 ?h else ?h)"
    using chat_with_ai_history [OF assms(1)] assms(2) by (simp add: Let_def)
  then have eq: "conversation_history w' = drop (length (conversation_history w) + 2 - 20) ?h"
    by (simp add: last20_def)
  show ?thesis
    using eq by auto
qed

text \<open>The theorem for a history of ten turn pairs and one more request.\<close>

theorem conversation_truncated_fifo_witness:
  "length ten_pairs = 20
   \<and> fst (chat_with_ai prose_model short_prompts ''hello'' False 0 None
          ((session_start ())\<lparr>conversation_history := ten_pairs\<rparr>)) = Some ''Sorry, no.''
   \<and> conversation_history
        (snd (chat_with_ai prose_model short_prompts ''hello'' False 0 None
               ((session_start ())\<lparr>conversation_history := ten_pairs\<rparr>)))
      = drop 2 ten_pairs @ [outgoing_user_message ten_pairs ''hello'' False None, ''Sorry, no.'']
   \<and> length (conversation_history
        (snd (chat_with_ai prose_model short_prompts ''hello'' False 0 None
               ((session_start ())\<lparr>conversation_history := ten_pairs\<rparr>)))) = 20"
proof -
  let ?w = "(session_start ())\<lparr>conversation_history := ten_pairs\<rparr>"
  let ?run = "chat_with_ai prose_model short_prompts ''hello'' False 0 None ?w"
  have len: "length ten_pairs = 20"
    by (simp add: ten_pairs_def)
  have answer: "fst ?run = Some ''Sorry, no.''"
    by (simp add: chat_with_ai_def prose_model_def Let_def)
  then have run: "?run = (Some ''Sorry, no.'', snd ?run)"
    by (metis prod.collapse)
  have h: "conversation_history ?w = ten_pairs"
    by (simp add: session_start_def)
  from conversation_truncated_fifo [OF run refl] len answer show ?thesis
    unfolding h by simp
qed

subsection \<open>The \<open>/add\<close> command\<close>

text \<open>When the characters held after the paths have been read are more than
  \<open>MAX_TOTAL_SIZE\<close>, the dictionary is emptied as a whole and the loop of \<open>main\<close> is
  left; otherwise everything that was read is kept.\<close>

lemma add_command_clears_all:
  assumes "tl (split_ws user_input) \<noteq> []"
    and "add_paths rc t (tl (split_ws user_input)) (added_files, []) = Inr (added, printed)"
    and "MAX_TOTAL_SIZE < total_size added"
  shows "add_command rc t user_input added_files =
           Inr ([], printed @ [Colored ''Total size of files is too large. Please reduce the number/size of files.'' ''red''], Break)"
  using assms by (simp add: add_command_def Let_def)

lemma add_command_keeps_all:
  assumes "tl (split_ws user_input) \<noteq> []"
    and "add_paths rc t (tl (split_ws user_input)) (added_files, []) = Inr (added, printed)"
    and "total_size added \<le> MAX_TOTAL_SIZE"
  shows "add_command rc t user_input added_files = Inr (added, printed, NextCommand)"
  using assms by (simp add: add_command_def Let_def)

text \<open>A file above \<open>MAX_FILE_SIZE\<close> bytes is never taken into the dictionary.\<close>

lemma add_file_to_context_size_guard:
  assumes "MAX_FILE_SIZE < getsize rc t file_path" and "isfile rc t file_path"
    and "add_file_to_context rc t file_path (added_files, printed) = Inr (added, printed')"
  shows "added = added_files"
  using assms
  by (auto simp: add_file_to_context_def split: sum.splits if_splits)

text \<open>A readable text file that no rule excludes is taken with its text.\<close>

lemma add_file_to_context_accepts:
  assumes "\<not> exists_on_disk rc t ''.gitignore''"
    and "exists_on_disk rc t file_path" and "access_R_OK rc t file_path"
    and "isfile rc t file_path"
    and "\<not> list_ex (\<lambda>ex_dir. contains file_path ex_dir) excluded_dirs"
    and "\<not> is_binary_file rc t file_path"
    and "getsize rc t file_path \<le> MAX_FILE_SIZE"
    and "read_text rc t file_path = Inr file_text"
  shows "add_file_to_context rc t file_path (added_files, printed)
     = Inr (AList.update file_path file_text added_files, printed)"
  using assms by (simp add: add_file_to_context_def)

lemma text_chunk_not_binary:
  assumes "read_chunk rc t file_path = Inr chunk" and "chunk \<noteq> []"
    and "set chunk \<subseteq> set text_characters"
  shows "\<not> is_binary_file rc t file_path"
proof -
  have zero: "0 \<notin> set text_characters"
    by (simp add: text_characters_def)
  with assms(3) have "0 \<notin> set chunk" by blast
  moreover from assms(3) have "filter (\<lambda>b. b \<notin> set text_characters) chunk = []"
    by (auto simp: filter_empty_conv)
  ultimately show ?thesis
    using assms(1,2) by (simp add: is_binary_file_def)
qed

lemma utf8_encode_replicate:
  "utf8_encode (replicate n c) = concat (replicate n (utf8_char c))"
  by (simp add: utf8_encode_def)

lemma length_concat_replicate: "length (concat (replicate n xs)) = n * length xs"
  by (induction n) simp_all

lemma set_concat_replicate: "set (concat (replicate n xs)) \<subseteq> set xs"
  by (induction n) auto

lemma repeated_text_not_binary:
  assumes "t file_path = Some (replicate n c)" and "0 < n"
    and "set (utf8_char c) \<subseteq> set text_characters" and "utf8_char c \<noteq> []"
  shows "\<not> is_binary_file text_os t file_path"
proof (rule text_chunk_not_binary)
  let ?bytes = "concat (replicate n (utf8_char c))"
  show "read_chunk text_os t file_path = Inr (take 1024 ?bytes)"
    using assms(1) by (simp add: text_os_def utf8_encode_replicate)
  have "0 < length ?bytes"
    using assms(2,4) by (simp add: length_concat_replicate)
  then show "take 1024 ?bytes \<noteq> []"
    by auto
  have "set (take 1024 ?bytes) \<subseteq> set ?bytes"
    by (rule set_take_subset)
  also have "\<dots> \<subseteq> set (utf8_char c)"
    by (rule set_concat_replicate)
  finally show "set (take 1024 ?bytes) \<subseteq> set text_characters"
    using assms(3) by blast
qed

lemma utf8_char_accent: "utf8_char (CHR 0xE9) = [195, 169]"
  by (simp add: utf8_char_def)

lemma utf8_char_x: "utf8_char (CHR ''x'') = [120]"
  by (simp add: utf8_char_def)

lemma accented_bytes: "length (utf8_encode accented) = 204800"
  by (simp add: accented_def utf8_encode_replicate length_concat_replicate utf8_char_accent)

lemma plain_bytes: "length (utf8_encode plain) = 153601"
  by (simp add: plain_def utf8_encode_replicate length_concat_replicate utf8_char_x)

lemma text_os_accepts:
  assumes "t ''.gitignore'' = None" and "t file_path = Some (replicate n c)" and "0 < n"
    and "set (utf8_char c) \<subseteq> set text_characters" and "utf8_char c \<noteq> []"
    and "n * length (utf8_char c) \<le> MAX_FILE_SIZE"
    and "\<not> list_ex (\<lambda>ex_dir. contains file_path ex_dir) excluded_dirs"
  shows "add_path text_os t file_path (added_files, printed)
     = Inr (AList.update file_path (replicate n c) added_files, printed)"
proof -
  have "add_file_to_context text_os t file_path (added_files, printed)
      = Inr (AList.update file_path (replicate n c) added_files, printed)"
  proof (rule add_file_to_context_accepts)
    show "\<not> is_binary_file text_os t file_path"
      using assms(2,3,4,5) by (rule repeated_text_not_binary)
    show "getsize text_os t file_path \<le> MAX_FILE_SIZE"
      using assms(2,6)
      by (simp add: text_os_def utf8_encode_replicate length_concat_replicate)
  qed (use assms in \<open>simp_all add: text_os_def\<close>)
  then show ?thesis
    using assms(2) by (simp add: add_path_def text_os_def)
qed

lemma not_excluded:
  "\<not> list_ex (\<lambda>ex_dir. contains ''e1.txt'' ex_dir) excluded_dirs"
  "\<not> list_ex (\<lambda>ex_dir. contains ''e2.txt'' ex_dir) excluded_dirs"
  "\<not> list_ex (\<lambda>ex_dir. contains ''e3.txt'' ex_dir) excluded_dirs"
  "\<not> list_ex (\<lambda>ex_dir. contains ''e4.txt'' ex_dir) excluded_dirs"
  "\<not> list_ex (\<lambda>ex_dir. contains ''p1.txt'' ex_dir) excluded_dirs"
  "\<not> list_ex (\<lambda>ex_dir. contains ''p2.txt'' ex_dir) excluded_dirs"
  "\<not> list_ex (\<lambda>ex_dir. contains ''p3.txt'' ex_dir) excluded_dirs"
  "\<not> list_ex (\<lambda>ex_dir. contains ''p4.txt'' ex_dir) excluded_dirs"
  by (simp_all add: excluded_dirs_def startswith_def)

lemma accent_is_text: "set (utf8_char (CHR 0xE9)) \<subseteq> set text_characters"
  by (simp add: utf8_char_accent text_characters_def)

lemma x_is_text: "set (utf8_char (CHR ''x'')) \<subseteq> set text_characters"
  by (simp add: utf8_char_x text_characters_def)

lemma accented_paths:
  "add_paths text_os accented_disk [''e1.txt'', ''e2.txt'', ''e3.txt'', ''e4.txt''] ([], [])
     = Inr ([(''e1.txt'', accented), (''e2.txt'', accented), (''e3.txt'', accented),
             (''e4.txt'', accented)], [])"
proof -
  have step: "add_path text_os accented_disk p (d, [])
      = Inr (AList.update p accented d, [])"
    if "accented_disk p = Some accented"
      and "\<not> list_ex (\<lambda>ex_dir. contains p ex_dir) excluded_dirs" for p d
    unfolding accented_def
    by (rule text_os_accepts)
       (use that in \<open>simp_all add: accented_disk_def accented_def text_characters_def
          utf8_char_accent MAX_FILE_SIZE_def\<close>)
  have files: "accented_disk ''e1.txt'' = Some accented" "accented_disk ''e2.txt'' = Some accented"
    "accented_disk ''e3.txt'' = Some accented" "accented_disk ''e4.txt'' = Some accented"
    by (simp_all add: accented_disk_def)
  show ?thesis
    by (simp add: step [OF files(1) not_excluded(1)] step [OF files(2) not_excluded(2)]
        step [OF files(3) not_excluded(3)] step [OF files(4) not_excluded(4)])
qed

lemma plain_paths:
  "add_paths text_os plain_disk [''p1.txt'', ''p2.txt'', ''p3.txt'', ''p4.txt''] ([], [])
     = Inr ([(''p1.txt'', plain), (''p2.txt'', plain), (''p3.txt'', plain),
             (''p4.txt'', plain)], [])"
proof -
  have step: "add_path text_os plain_disk p (d, [])
      = Inr (AList.update p plain d, [])"
    if "plain_disk p = Some plain"
      and "\<not> list_ex (\<lambda>ex_dir. contains p ex_dir) excluded_dirs" for p d
    unfolding plain_def
    by (rule text_os_accepts)
       (use that in \<open>simp_all add: plain_disk_def plain_def text_characters_def
          utf8_char_x MAX_FILE_SIZE_def\<close>)
  have files: "plain_disk ''p1.txt'' = Some plain" "plain_disk ''p2.txt'' = Some plain"
    "plain_disk ''p3.txt'' = Some plain" "plain_disk ''p4.txt'' = Some plain"
    by (simp_all add: plain_disk_def)
  show ?thesis
    by (simp add: step [OF files(1) not_excluded(5)] step [OF files(2) not_excluded(6)]
        step [OF files(3) not_excluded(7)] step [OF files(4) not_excluded(8)])
qed

lemma split_add_accented:
  "split_ws ''/add e1.txt e2.txt e3.txt e4.txt''
     = [''/add'', ''e1.txt'', ''e2.txt'', ''e3.txt'', ''e4.txt'']"
  by (simp add: split_ws_def isspace_def)

lemma split_add_plain:
  "split_ws ''/add p1.txt p2.txt p3.txt p4.txt''
     = [''/add'', ''p1.txt'', ''p2.txt'', ''p3.txt'', ''p4.txt'']"
  by (simp add: split_ws_def isspace_def)

text \<open>Four files of 153601 letters \<open>x\<close> each, all within the limit for one file: together
  they hold 614404 characters, and \<open>/add\<close> empties the dictionary.\<close>

lemma plain_files_are_cleared:
  "add_command text_os plain_disk ''/add p1.txt p2.txt p3.txt p4.txt'' []
     = Inr ([], [Colored ''Total size of files is too large. Please reduce the number/size of files.'' ''red''], Break)"
proof -
  have "MAX_TOTAL_SIZE
      < total_size [(''p1.txt'', plain), (''p2.txt'', plain), (''p3.txt'', plain),
                    (''p4.txt'', plain)]"
    by (simp add: total_size_def plain_def MAX_TOTAL_SIZE_def MAX_FILE_SIZE_def)
  with add_command_clears_all [of "''/add p1.txt p2.txt p3.txt p4.txt''" text_os plain_disk
      "[]" _ "[]"] plain_paths
  show ?thesis
    by (simp add: split_add_plain)
qed

text \<open>
  Claim C7 at four files of 102400 accented letters each. Every file is 204800 bytes on
  disk, which the limit for one file admits; together they are 819200 bytes, more than
  \<open>MAX_TOTAL_SIZE\<close>, the limit that the module states in KB. But the total that \<open>/add\<close>
  compares with the limit is the number of characters, 409600: the dictionary is not
  emptied, all four files stay in it, and the loop of \<open>main\<close> goes on.
\<close>

theorem accented_files_are_not_cleared:
  "getsize text_os accented_disk ''e1.txt'' = MAX_FILE_SIZE
   \<and> MAX_TOTAL_SIZE
       < size_in_bytes [(''e1.txt'', accented), (''e2.txt'', accented),
                        (''e3.txt'', accented), (''e4.txt'', accented)]
   \<and> total_size [(''e1.txt'', accented), (''e2.txt'', accented), (''e3.txt'', accented),
                  (''e4.txt'', accented)] = 409600
   \<and> add_command text_os accented_disk ''/add e1.txt e2.txt e3.txt e4.txt'' []
      = Inr ([(''e1.txt'', accented), (''e2.txt'', accented), (''e3.txt'', accented),
              (''e4.txt'', accented)], [], NextCommand)"
proof -
  let ?held = "[(''e1.txt'', accented), (''e2.txt'', accented), (''e3.txt'', accented),
                (''e4.txt'', accented)]"
  have one: "getsize text_os accented_disk ''e1.txt'' = MAX_FILE_SIZE"
    by (simp add: text_os_def accented_disk_def accented_bytes MAX_FILE_SIZE_def)
  have bytes: "MAX_TOTAL_SIZE < size_in_bytes ?held"
    by (simp add: size_in_bytes_def accented_bytes MAX_TOTAL_SIZE_def MAX_FILE_SIZE_def)
  have chars: "total_size ?held = 409600"
    by (simp add: total_size_def accented_def)
  have "total_size ?held \<le> MAX_TOTAL_SIZE"
    unfolding chars by (simp add: MAX_TOTAL_SIZE_def MAX_FILE_SIZE_def)
  with add_command_keeps_all [of "''/add e1.txt e2.txt e3.txt e4.txt''" text_os accented_disk
      "[]" ?held "[]"] accented_paths
  have run: "add_command text_os accented_disk ''/add e1.txt e2.txt e3.txt e4.txt'' []
      = Inr (?held, [], NextCommand)"
    by (simp add: split_add_accented)
  from one bytes chars run show ?thesis
    by (intro conjI)
qed

section \<open>Properties of the edit path\<close>

lemma update_new: "k \<notin> fst ` set al \<Longrightarrow> AList.update k v al = al @ [(k, v)]"
  by (induction al) auto

lemma chat_with_ai_edit_requests:
  "chat_with_ai mm pr user_message True 0 None w = (r, w') \<Longrightarrow>
   requests w' = requests w
     @ [[\<lparr>role = ''user'',
          content = EDIT_INSTRUCTION_PROMPT pr @ ''\<newline>\<newline>User request: '' @ user_message\<rparr>]]"
  by (auto simp: chat_with_ai_def Let_def outgoing_user_message_def message_content_def
      split: sum.splits)

lemma edit_loop_requests:
  "edit_loop mm pr edit_instructions items acc w = (modified, w') \<Longrightarrow>
   requests w' = requests w @ List.map_filter (edit_request pr edit_instructions) items"
proof (induction items arbitrary: acc w)
  case Nil
  then show ?case by (simp add: map_filter_simps)
next
  case (Cons item items)
  obtain p c where item: "item = (p, c)" by (cases item)
  show ?case
  proof (cases "map_of edit_instructions p")
    case None
    with Cons item show ?thesis
      by (simp add: map_filter_simps edit_request_def)
  next
    case (Some instructions)
    obtain r w1 where call: "chat_with_ai mm pr (edit_prompt pr p c instructions) True 0 None w = (r, w1)"
      by (cases "chat_with_ai mm pr (edit_prompt pr p c instructions) True 0 None w")
    from call have req: "requests w1 = requests w
        @ [[\<lparr>role = ''user'',
             content = EDIT_INSTRUCTION_PROMPT pr @ ''\<newline>\<newline>User request: ''
                       @ edit_prompt pr p c instructions\<rparr>]]"
      by (rule chat_with_ai_edit_requests)
    from Cons.prems item Some call
    obtain acc1 where "edit_loop mm pr edit_instructions items acc1 w1 = (modified, w')"
      by (auto split: option.splits if_splits)
    then have "requests w' = requests w1 @ List.map_filter (edit_request pr edit_instructions) items"
      by (rule Cons.IH)
    with req item Some show ?thesis
      by (simp add: map_filter_simps edit_request_def)
  qed
qed

lemma edit_loop_other_keys:
  "p \<notin> fst ` set items \<Longrightarrow>
   map_of (fst (edit_loop mm pr edit_instructions items acc w)) p = map_of acc p"
proof (induction items arbitrary: acc w)
  case Nil
  then show ?case by simp
next
  case (Cons item items)
  obtain q c where item: "item = (q, c)" by (cases item)
  with Cons.prems have "q \<noteq> p" and "p \<notin> fst ` set items" by auto
  then show ?case
    using Cons.IH item
    by (auto simp: update_conv' split: option.splits prod.splits)
qed

lemma edit_loop_passthrough:
  assumes "distinct (map fst items)" and "(p, c) \<in> set items"
    and "map_of edit_instructions p = None"
  shows "map_of (fst (edit_loop mm pr edit_instructions items acc w)) p = Some c"
  using assms
proof (induction items arbitrary: acc w)
  case Nil
  then show ?case by simp
next
  case (Cons item items)
  obtain q d where item: "item = (q, d)" by (cases item)
  show ?case
  proof (cases "q = p")
    case True
    with Cons.prems item have "d = c" and "p \<notin> fst ` set items"
      by (auto simp: image_iff rev_image_eqI)
    with True item Cons.prems(3) show ?thesis
      by (simp add: edit_loop_other_keys update_conv')
  next
    case False
    with Cons.prems item have d: "distinct (map fst items)" and m: "(p, c) \<in> set items"
      by auto
    have ih: "map_of (fst (edit_loop mm pr edit_instructions items acc1 w1)) p = Some c"
      for acc1 and w1 :: "'a world"
      by (rule Cons.IH [OF d m Cons.prems(3)])
    with item show ?thesis
      by (auto split: option.splits prod.splits)
  qed
qed

lemma edit_loop_empty_map:
  "distinct (map fst (acc @ items)) \<Longrightarrow> edit_loop mm pr [] items acc w = (acc @ items, w)"
proof (induction items arbitrary: acc)
  case Nil
  then show ?case by simp
next
  case (Cons item items)
  obtain q d where item: "item = (q, d)" by (cases item)
  with Cons.prems have "q \<notin> fst ` set acc" by auto
  then have "AList.update q d acc = acc @ [(q, d)]" by (rule update_new)
  moreover have "distinct (map fst ((acc @ [(q, d)]) @ items))"
    using Cons.prems item by simp
  ultimately show ?case
    using Cons.IH [of "acc @ [(q, d)]"] item by simp
qed

lemma parse_lines_no_marker:
  "\<forall>line \<in> set lines. \<not> startswith line ''File: '' \<Longrightarrow>
   parse_lines lines instructions None cur = instructions"
  by (induction lines arbitrary: cur) auto

text \<open>
  Claim C8. A response without a line that starts with \<open>File: \<close> parses to the empty
  instruction map. Applying an instruction map to an original set of files (a dictionary,
  so with distinct paths) returns every file whose path is not in the map with its text
  unchanged, and the requests sent to the model are exactly the edit requests of the
  files whose path is in the map, in order; with the empty map the original set is
  returned as it is and the state is unchanged, so that nothing was sent.
\<close>

theorem untouched_files_pass_through:
  "((\<forall>line \<in> set (split_nl response). \<not> startswith line ''File: '') \<longrightarrow>
       parse_edit_instructions response = [])
   \<and> (distinct (map fst original_files) \<longrightarrow>
        apply_edit_instructions mm pr edit_instructions original_files w = (modified_files, w') \<longrightarrow>
          (\<forall>(p, c) \<in> set original_files.
              map_of edit_instructions p = None \<longrightarrow> map_of modified_files p = Some c)
          \<and> requests w' = requests w
               @ List.map_filter (edit_request pr edit_instructions) original_files)
   \<and> (distinct (map fst original_files) \<longrightarrow>
        apply_edit_instructions mm pr [] original_files w = (original_files, w))"
proof (intro conjI impI)
  assume "\<forall>line \<in> set (split_nl response). \<not> startswith line ''File: ''"
  then show "parse_edit_instructions response = []"
    by (simp add: parse_edit_instructions_def parse_lines_no_marker)
next
  assume d: "distinct (map fst original_files)"
    and run: "apply_edit_instructions mm pr edit_instructions original_files w = (modified_files, w')"
  show "\<forall>(p, c) \<in> set original_files.
          map_of edit_instructions p = None \<longrightarrow> map_of modified_files p = Some c"
  proof (clarify)
    fix p c
    assume "(p, c) \<in> set original_files" and "map_of edit_instructions p = None"
    with d have "map_of (fst (edit_loop mm pr edit_instructions original_files [] w)) p = Some c"
      by (rule edit_loop_passthrough)
    with run show "map_of modified_files p = Some c"
      by (simp add: apply_edit_instructions_def)
  qed
next
  assume "apply_edit_instructions mm pr edit_instructions original_files w = (modified_files, w')"
  then show "requests w' = requests w
      @ List.map_filter (edit_request pr edit_instructions) original_files"
    by (simp add: apply_edit_instructions_def edit_loop_requests)
next
  assume "distinct (map fst original_files)"
  then show "apply_edit_instructions mm pr [] original_files w = (original_files, w)"
    by (simp add: apply_edit_instructions_def edit_loop_empty_map)
qed

text \<open>The theorem for a response without marker, and for two files of which one is named
  by the instruction map.\<close>

theorem untouched_files_pass_through_witness:
  "split_nl ''Nothing to change.'' = [''Nothing to change.'']
   \<and> \<not> startswith ''Nothing to change.'' ''File: ''
   \<and> parse_edit_instructions ''Nothing to change.'' = []
   \<and> distinct (map fst [(''a.py'', ''print(1)''), (''b.py'', ''x = 2'')])
   \<and> map_of [(''a.py'', ''1. print 2 instead'')] ''b.py'' = None
   \<and> map_of (fst (apply_edit_instructions prose_model short_prompts
          [(''a.py'', ''1. print 2 instead'')]
          [(''a.py'', ''print(1)''), (''b.py'', ''x = 2'')] (session_start ()))) ''b.py''
      = Some ''x = 2''
   \<and> length (requests (snd (apply_edit_instructions prose_model short_prompts
          [(''a.py'', ''1. print 2 instead'')]
          [(''a.py'', ''print(1)''), (''b.py'', ''x = 2'')] (session_start ())))) = 1
   \<and> apply_edit_instructions prose_model short_prompts []
          [(''a.py'', ''print(1)''), (''b.py'', ''x = 2'')] (session_start ())
      = ([(''a.py'', ''print(1)''), (''b.py'', ''x = 2'')], session_start ())"
proof -
  let ?orig = "[(''a.py'', ''print(1)''), (''b.py'', ''x = 2'')]"
  let ?map = "[(''a.py'', ''1. print 2 instead'')]"
  let ?run = "apply_edit_instructions prose_model short_prompts ?map ?orig (session_start ())"
  have lines: "split_nl ''Nothing to change.'' = [''Nothing to change.'']"
    by simp
  have nomark: "\<forall>line \<in> set (split_nl ''Nothing to change.''). \<not> startswith line ''File: ''"
    unfolding lines by (simp add: startswith_def)
  have start: "requests (session_start ()) = []"
    by (simp add: session_start_def)
  have one: "length (List.map_filter (edit_request short_prompts ?map) ?orig) = 1"
    by (simp add: map_filter_simps edit_request_def)
  from untouched_files_pass_through [of "''Nothing to change.''" ?orig prose_model
      short_prompts ?map "session_start ()" "fst ?run" "snd ?run"] nomark start one
  show ?thesis by (simp add: startswith_def)
qed

lemma map_of_store_current:
  "map_of (store_current cf cur instructions) =
     (case cf of None \<Rightarrow> map_of instructions
      | Some f \<Rightarrow> if f = [] then map_of instructions
                  else (map_of instructions)(f \<mapsto> join_nl cur))"
  by (cases cf) (auto simp: update_conv')

lemma store_current_falsy: "\<not> truthy cf \<Longrightarrow> store_current cf cur instructions = instructions"
  by (cases cf) auto

lemma map_of_parse_lines:
  "map_of (parse_lines lines instructions cf cur) =
     map_of (store_current cf (cur @ block_after lines) instructions)
       ++ map_of (rev (filter (\<lambda>(f, b). f \<noteq> []) (marker_blocks lines)))"
proof (induction lines arbitrary: instructions cf cur)
  case Nil
  then show ?case by simp
next
  case (Cons line rest)
  show ?case
  proof (cases "startswith line ''File: ''")
    case True
    let ?inst = "store_current cf cur instructions"
    let ?p = "strip (drop 6 line)"
    let ?b = "join_nl (block_after rest)"
    let ?M = "map_of (rev (filter (\<lambda>(f, b). f \<noteq> []) (marker_blocks rest)))"
    have lhs: "map_of (parse_lines (line # rest) instructions cf cur)
        = map_of (store_current (Some ?p) (block_after rest) ?inst) ++ ?M"
      using True Cons.IH [of ?inst "Some ?p" "[]"] by simp
    show ?thesis
    proof (cases "?p = []")
      case True
      with \<open>startswith line ''File: ''\<close> lhs show ?thesis by simp
    next
      case False
      have "map_of (store_current (Some ?p) (block_after rest) ?inst) ++ ?M
          = (map_of ?inst ++ [?p \<mapsto> ?b]) ++ ?M"
        using False by (simp add: update_conv')
      also have "\<dots> = map_of ?inst ++ ([?p \<mapsto> ?b] ++ ?M)"
        by simp
      finally show ?thesis
        using \<open>startswith line ''File: ''\<close> False lhs by (simp add: map_of_append)
    qed
  next
    case False
    show ?thesis
    proof (cases "strip line \<noteq> [] \<and> truthy cf")
      case True
      with False show ?thesis
        using Cons.IH [of instructions cf "cur @ [strip line]"] by simp
    next
      case False2: False
      with False show ?thesis
        using Cons.IH [of instructions cf cur]
        by (auto simp: store_current_falsy)
    qed
  qed
qed

lemma distinct_store_current:
  "distinct (map fst instructions) \<Longrightarrow> distinct (map fst (store_current cf cur instructions))"
  by (cases cf) (auto simp: distinct_update)

lemma distinct_parse_lines:
  "distinct (map fst instructions) \<Longrightarrow>
   distinct (map fst (parse_lines lines instructions cf cur))"
  by (induction lines arbitrary: instructions cf cur) (auto simp: distinct_store_current)

text \<open>
  Claim C10. The paths of a parsed instruction map are pairwise distinct, and a path that
  several marker lines name is mapped to the block that follows the last of them: when
  the marker \<open>(p, b)\<close> has no later marker with the same path, the map sends \<open>p\<close> to
  \<open>b\<close>, whatever markers came before it. (A marker with an empty path stores nothing.)
\<close>

theorem last_marker_wins:
  "distinct (map fst (parse_edit_instructions response))
   \<and> (marker_blocks (split_nl response) = before @ (p, b) # after \<longrightarrow>
        p \<notin> fst ` set after \<longrightarrow> p \<noteq> [] \<longrightarrow>
        map_of (parse_edit_instructions response) p = Some b)"
proof (intro conjI impI)
  show "distinct (map fst (parse_edit_instructions response))"
    by (simp add: parse_edit_instructions_def distinct_parse_lines)
next
  assume mb: "marker_blocks (split_nl response) = before @ (p, b) # after"
    and last: "p \<notin> fst ` set after" and ne: "p \<noteq> []"
  let ?ne = "filter (\<lambda>(f, b). f \<noteq> [])"
  have "map_of (parse_edit_instructions response) =
          map_of (rev (?ne (marker_blocks (split_nl response))))"
    by (simp add: parse_edit_instructions_def map_of_parse_lines)
  also have "\<dots> = map_of (rev (?ne after) @ (p, b) # rev (?ne before))"
    using mb ne by simp
  finally have "map_of (parse_edit_instructions response) p
      = map_of (rev (?ne after) @ (p, b) # rev (?ne before)) p" by simp
  also have "\<dots> = Some b"
  proof -
    have "p \<notin> fst ` set (rev (?ne after))" using last by auto
    then have "map_of (rev (?ne after)) p = None"
      by (simp add: map_of_eq_None_iff)
    then show ?thesis by (simp add: map_add_def map_of_append)
  qed
  finally show "map_of (parse_edit_instructions response) p = Some b" .
qed

text \<open>The theorem for a response that names \<open>a.py\<close> twice.\<close>

theorem last_marker_wins_witness:
  "marker_blocks (split_nl ''File: a.py\<newline>1. first\<newline>File: a.py\<newline>2. second'')
     = [(''a.py'', ''1. first'')] @ (''a.py'', ''2. second'') # []
   \<and> ''a.py'' \<notin> fst ` set ([] :: (string \<times> string) list)
   \<and> map_of (parse_edit_instructions
         ''File: a.py\<newline>1. first\<newline>File: a.py\<newline>2. second'') ''a.py''
      = Some ''2. second''"
proof -
  let ?r = "''File: a.py\<newline>1. first\<newline>File: a.py\<newline>2. second''"
  have lines: "split_nl ?r = [''File: a.py'', ''1. first'', ''File: a.py'', ''2. second'']"
    by simp
  have blocks: "marker_blocks (split_nl ?r)
      = [(''a.py'', ''1. first'')] @ (''a.py'', ''2. second'') # []"
    unfolding lines by (simp add: startswith_def strip_def isspace_def)
  from last_marker_wins [of ?r "[(''a.py'', ''1. first'')]" "''a.py''" "''2. second''" "[]"]
    blocks
  show ?thesis by simp
qed

section \<open>Properties of the creation path\<close>

subsection \<open>What the steps leave unchanged\<close>

lemma apply_block_frame:
  "apply_block os code w = (r, w') \<Longrightarrow>
   slept w' = slept w \<and> requests w' = requests w
   \<and> conversation_history w' = conversation_history w
   \<and> last_ai_response w' = last_ai_response w"
  by (auto simp: apply_block_def Let_def split: option.splits prod.splits if_splits item_type.splits)

lemma creation_loop_frame:
  "creation_loop os blocks w = (r, w') \<Longrightarrow>
   slept w' = slept w \<and> requests w' = requests w
   \<and> conversation_history w' = conversation_history w
   \<and> last_ai_response w' = last_ai_response w"
proof (induction blocks arbitrary: w)
  case Nil
  then show ?case by simp
next
  case (Cons code rest)
  obtain r1 w1 where step: "apply_block os code w = (r1, w1)"
    by (cases "apply_block os code w")
  note f1 = apply_block_frame [OF step]
  show ?case
  proof (cases r1)
    case None
    with Cons.prems step have "creation_loop os rest w1 = (r, w')" by simp
    from Cons.IH [OF this] f1 show ?thesis by simp
  next
    case (Some e)
    with Cons.prems step have "w' = w1" by simp
    with f1 show ?thesis by simp
  qed
qed

lemma creation_body_frame:
  "creation_body os response w = (r, w') \<Longrightarrow>
   slept w' = slept w \<and> requests w' = requests w
   \<and> conversation_history w' = conversation_history w
   \<and> last_ai_response w' = last_ai_response w"
  by (auto simp: creation_body_def Let_def dest: creation_loop_frame split: if_splits)

lemma chat_with_ai_frame:
  "chat_with_ai mm pr user_message is_edit retry_count added_files w = (r, w') \<Longrightarrow>
   slept w' = slept w \<and> fs w' = fs w \<and> stdout w' = stdout w
   \<and> length (requests w') = Suc (length (requests w))"
  by (auto simp: chat_with_ai_def Let_def split: sum.splits if_splits)

lemma creation_body_no_blocks:
  "findall_code_blocks response = [] \<Longrightarrow>
   creation_body os response w
     = (Some (Exc ValueError ''No code blocks found in the AI response.'' None), w)"
  by (simp add: creation_body_def)

lemma retries_bounded:
  "apply_creation_steps os mm pr response added_files retry_count w = (b, w') \<Longrightarrow>
   \<exists>k. k \<le> max_retries - retry_count
     \<and> slept w' = slept w @ map (\<lambda>i. 2 ^ i) [retry_count..<retry_count + k]
     \<and> length (requests w') = length (requests w) + k"
proof (induction os mm pr response added_files retry_count w arbitrary: b w'
        rule: apply_creation_steps.induct)
  case (1 os mm pr response added_files retry_count w)
  obtain r w1 where body: "creation_body os response w = (r, w1)"
    by (cases "creation_body os response w")
  note f = creation_body_frame [OF body]
  let ?em = "\<lambda>e. msg e @ '' Please provide the creation instructions again using the specified format.''"
  show ?case
  proof (cases r)
    case None
    with "1.prems" body have "w' = w1"
      by (simp add: apply_creation_steps.simps)
    with f show ?thesis by (intro exI [of _ 0]) simp
  next
    case (Some e)
    show ?thesis
    proof (cases "isinstance e ValueError \<and> retry_count < max_retries")
      case False
      with "1.prems" body Some
      have "slept w' = slept w1 \<and> requests w' = requests w1"
        by (auto simp: apply_creation_steps.simps split: if_splits)
      with f show ?thesis by (intro exI [of _ 0]) simp
    next
      case True
      let ?w2 = "w1\<lparr>slept := slept w1 @ [2 ^ retry_count]\<rparr>"
      obtain a w3 where call: "chat_with_ai mm pr (?em e) False 0 added_files ?w2 = (a, w3)"
        by (cases "chat_with_ai mm pr (?em e) False 0 added_files ?w2")
      note g = chat_with_ai_frame [OF call]
      show ?thesis
      proof (cases "\<exists>nr. a = Some nr \<and> nr \<noteq> []")
        case False
        with "1.prems" body Some True call have "w' = w3"
          by (auto simp: apply_creation_steps.simps split: option.splits if_splits)
        with f g True show ?thesis
          by (intro exI [of _ 1]) (auto simp: max_retries_def)
      next
        case True2: True
        then obtain nr where nr: "a = Some nr" "nr \<noteq> []" by blast
        with "1.prems" body Some True call
        have rec: "apply_creation_steps os mm pr nr added_files (retry_count + 1) w3 = (b, w')"
          by (simp add: apply_creation_steps.simps)
        from True have vt: "isinstance e ValueError" and lt: "retry_count < max_retries"
          by simp_all
        from "1.IH" [OF body [symmetric] Some vt lt call [symmetric] nr(1) nr(2) rec]
        obtain k where k: "k \<le> max_retries - (retry_count + 1)"
          "slept w' = slept w3 @ map (\<lambda>i. 2 ^ i) [retry_count + 1..<retry_count + 1 + k]"
          "length (requests w') = length (requests w3) + k"
          by auto
        show ?thesis
        proof (intro exI [of _ "Suc k"] conjI)
          show "Suc k \<le> max_retries - retry_count" using k(1) True by auto
          show "slept w' = slept w @ map (\<lambda>i. 2 ^ i) [retry_count..<retry_count + Suc k]"
            using k(2) f g by (simp add: upt_rec [of retry_count])
          show "length (requests w') = length (requests w) + Suc k"
            using k(3) f g by simp
        qed
      qed
    qed
  qed
qed

subsection \<open>Evaluation of the example responses\<close>


lemma single_blocks:
  "findall_code_blocks single_file_response = [''### FILE: a/b.txt\<newline>X\<newline>'']"
  by (simp add: single_file_response_def string_eval)



lemma f_marker:
  "info_match (strip ''### FILE: f.txt\<newline>X\<newline>'') = Some (FILE, ''f.txt'')"
  by (simp add: info_match_def string_eval)

lemma ab_marker:
  "info_match (strip ''### FILE: a/b.txt\<newline>X\<newline>'') = Some (FILE, ''a/b.txt'')"
  by (simp add: info_match_def string_eval)

lemma ab_content: "strip (sub_file_marker ''### FILE: a/b.txt\<newline>X\<newline>'') = ''X''"
  by (simp add: string_eval)

lemma f_content: "strip (sub_file_marker ''### FILE: f.txt\<newline>X\<newline>'') = ''X''"
  by (simp add: string_eval)

lemma hello_blocks: "findall_code_blocks ''hello'' = []"
  by (simp add: string_eval)

lemma refusal_blocks: "findall_code_blocks ''Sorry, no.'' = []"
  by (simp add: string_eval)

subsection \<open>Single blocks\<close>

lemma apply_block_missing_path:
  assumes "info_match (strip code) = Some (item, path)" and "\<not> path_exists os (fs w) path"
  shows "apply_block os code w
     = (None, w\<lparr>stdout := stdout w @ [Colored (''Path not found: '' @ path) ''red'']\<rparr>)"
  using assms by (simp add: apply_block_def)










text \<open>
  Claim C2 at the input the specification names. The response with the single block for
  \<open>a/b.txt\<close> parses as claimed: one block, the marker of a file with path
  \<open>a/b.txt\<close>, content \<open>X\<close>. Applied where neither \<open>a/b.txt\<close> nor \<open>a\<close> exists,
  the directive is skipped by the test \<open>os.path.exists(path)\<close>: the call reports success,
  prints that the path was not found, and the file is still absent afterwards.
\<close>

theorem missing_file_is_not_created:
  "findall_code_blocks single_file_response = [''### FILE: a/b.txt\<newline>X\<newline>'']
   \<and> info_match (strip ''### FILE: a/b.txt\<newline>X\<newline>'') = Some (FILE, ''a/b.txt'')
   \<and> strip (sub_file_marker ''### FILE: a/b.txt\<newline>X\<newline>'') = ''X''
   \<and> apply_creation_steps mem_os prose_model short_prompts single_file_response None 0
        (session_start Map.empty)
      = (True, (session_start Map.empty)
                 \<lparr>stdout := [Colored ''Path not found: a/b.txt'' ''red'']\<rparr>)
   \<and> fs (snd (apply_creation_steps mem_os prose_model short_prompts single_file_response
                 None 0 (session_start Map.empty))) ''a/b.txt'' = None"
proof -
  have "apply_block mem_os ''### FILE: a/b.txt\<newline>X\<newline>'' (session_start Map.empty)
      = (None, (session_start Map.empty)
                 \<lparr>stdout := [Colored ''Path not found: a/b.txt'' ''red'']\<rparr>)"
    using apply_block_missing_path [OF ab_marker, of mem_os "session_start Map.empty"]
    by (simp add: mem_os_def session_start_def)
  then have run: "apply_creation_steps mem_os prose_model short_prompts single_file_response
        None 0 (session_start Map.empty)
      = (True, (session_start Map.empty)
                 \<lparr>stdout := [Colored ''Path not found: a/b.txt'' ''red'']\<rparr>)"
    by (subst apply_creation_steps.simps) (simp add: creation_body_def single_blocks)
  show ?thesis
    unfolding run
    by (simp add: single_blocks ab_marker ab_content session_start_def
        del: sub_file_marker.simps)
qed

subsection \<open>Retries\<close>

lemma outgoing_user_message_suffix:
  "\<exists>pre. outgoing_user_message h user_message is_edit added_files = pre @ user_message"
proof -
  have "\<exists>pre. (case added_files of None \<Rightarrow> user_message
           | Some d \<Rightarrow> if d = [] then user_message
                       else file_context d @ ''\<newline>'' @ user_message) = pre @ user_message"
    by (cases added_files) (auto intro: exI [of _ "[]"] exI [of _ "file_context d @ ''\<newline>''" for d])
  then obtain pre where "(case added_files of None \<Rightarrow> user_message
           | Some d \<Rightarrow> if d = [] then user_message
                       else file_context d @ ''\<newline>'' @ user_message) = pre @ user_message" ..
  then show ?thesis
    by (auto simp: outgoing_user_message_def Let_def
        intro: exI [of _ "history_text h @ ''\<newline>User: '' @ pre"])
qed

lemma chat_with_ai_answered:
  assumes "mm (length (requests w)) [\<lparr>role = ''user'',
             content = outgoing_user_message (conversation_history w) user_message False
                         added_files\<rparr>] = Inr r"
  shows "\<exists>w'. chat_with_ai mm pr user_message False 0 added_files w = (Some (r_content r), w')
     \<and> last_ai_response w' = Some (r_content r)
     \<and> slept w' = slept w \<and> fs w' = fs w \<and> stdout w' = stdout w
     \<and> requests w' = requests w @ [[\<lparr>role = ''user'',
             content = outgoing_user_message (conversation_history w) user_message False
                         added_files\<rparr>]]"
  using assms
  by (simp add: chat_with_ai_def Let_def message_content_def)

lemma unparsable_exhausts:
  assumes stubborn: "\<And>n messages. \<exists>r. mm n messages = Inr r \<and> r_content r \<noteq> []
                        \<and> findall_code_blocks (r_content r) = []"
    and "findall_code_blocks response = []" and "retry_count \<le> max_retries"
  shows "\<exists>w' last new.
      apply_creation_steps os mm pr response added_files retry_count w = (False, w')
    \<and> slept w' = slept w @ map (\<lambda>i. 2 ^ i) [retry_count..<max_retries]
    \<and> requests w' = requests w @ new \<and> length new = max_retries - retry_count
    \<and> (\<forall>m \<in> set new. \<exists>pre. m = [\<lparr>role = ''user'', content = pre @ retry_text\<rparr>])
    \<and> fs w' = fs w
    \<and> findall_code_blocks last = []
    \<and> stdout w' = stdout w @ [Plain ''Creation response that failed to parse:'', Plain last]
    \<and> (retry_count = max_retries \<longrightarrow> last = response \<and> last_ai_response w' = last_ai_response w)
    \<and> (retry_count < max_retries \<longrightarrow> last_ai_response w' = Some last)"
  using assms(2,3)
proof (induction "max_retries - retry_count" arbitrary: retry_count response w)
  case 0
  then have rc: "retry_count = max_retries" by simp
  have ve: "isinstance (Exc ValueError ''No code blocks found in the AI response.'' None) ValueError"
    by (simp add: isinstance_def)
  let ?w' = "w\<lparr>stdout := stdout w @ [Plain ''Creation response that failed to parse:'',
                                    Plain response]\<rparr>"
  have "apply_creation_steps os mm pr response added_files retry_count w = (False, ?w')"
    using 0 rc ve
    by (subst apply_creation_steps.simps) (simp add: creation_body_no_blocks)
  then show ?case
    using rc 0
    by (intro exI [of _ ?w'] exI [of _ response] exI [of _ "[]"]) simp
next
  case (Suc n)
  then have lt: "retry_count < max_retries" by simp
  have ve: "isinstance (Exc ValueError ''No code blocks found in the AI response.'' None) ValueError"
    by (simp add: isinstance_def)
  let ?w2 = "w\<lparr>slept := slept w @ [2 ^ retry_count]\<rparr>"
  let ?m = "[\<lparr>role = ''user'',
             content = outgoing_user_message (conversation_history ?w2) retry_text False
                         added_files\<rparr>]"
  from stubborn [of "length (requests ?w2)" ?m]
  obtain r where r: "mm (length (requests ?w2)) ?m = Inr r" "r_content r \<noteq> []"
      "findall_code_blocks (r_content r) = []" by blast
  from chat_with_ai_answered [where mm = mm and w = ?w2 and user_message = retry_text
      and added_files = added_files and r = r and pr = pr, OF r(1)]
  obtain w3 where call: "chat_with_ai mm pr retry_text False 0 added_files ?w2
        = (Some (r_content r), w3)"
    and w3: "last_ai_response w3 = Some (r_content r)" "slept w3 = slept ?w2" "fs w3 = fs ?w2"
      "stdout w3 = stdout ?w2" "requests w3 = requests ?w2 @ [?m]"
    by blast
  have step: "apply_creation_steps os mm pr response added_files retry_count w
      = apply_creation_steps os mm pr (r_content r) added_files (retry_count + 1) w3"
    using lt ve r(2) call Suc.prems(1)
    by (subst apply_creation_steps.simps)
       (simp add: creation_body_no_blocks retry_text_def)
  have "n = max_retries - (retry_count + 1)" using Suc.hyps(2) by simp
  from Suc.hyps(1) [OF this r(3), of w3] lt
  obtain w' last new where
    ih: "apply_creation_steps os mm pr (r_content r) added_files (retry_count + 1) w3 = (False, w')"
      "slept w' = slept w3 @ map (\<lambda>i. 2 ^ i) [retry_count + 1..<max_retries]"
      "requests w' = requests w3 @ new" "length new = max_retries - (retry_count + 1)"
      "\<forall>m \<in> set new. \<exists>pre. m = [\<lparr>role = ''user'', content = pre @ retry_text\<rparr>]"
      "fs w' = fs w3" "findall_code_blocks last = []"
      "stdout w' = stdout w3 @ [Plain ''Creation response that failed to parse:'', Plain last]"
      "retry_count + 1 = max_retries \<longrightarrow> last = r_content r \<and> last_ai_response w' = last_ai_response w3"
      "retry_count + 1 < max_retries \<longrightarrow> last_ai_response w' = Some last"
    by auto
  obtain pre where pre: "?m = [\<lparr>role = ''user'', content = pre @ retry_text\<rparr>]"
    using outgoing_user_message_suffix [of "conversation_history ?w2" retry_text False added_files]
    by auto
  have last: "last_ai_response w' = Some last"
    using ih(9,10) w3(1) lt by (cases "retry_count + 1 = max_retries") auto
  show ?case
  proof (intro exI [of _ w'] exI [of _ last] exI [of _ "?m # new"] conjI impI)
    show "apply_creation_steps os mm pr response added_files retry_count w = (False, w')"
      using step ih(1) by simp
    show "slept w' = slept w @ map (\<lambda>i. 2 ^ i) [retry_count..<max_retries]"
      using ih(2) w3(2) lt by (simp add: upt_rec [of retry_count])
    show "requests w' = requests w @ ?m # new"
      using ih(3) w3(5) by simp
    show "length (?m # new) = max_retries - retry_count"
      using ih(4) lt by simp
    show "\<forall>m \<in> set (?m # new). \<exists>pre. m = [\<lparr>role = ''user'', content = pre @ retry_text\<rparr>]"
      using ih(5) pre by auto
    show "fs w' = fs w" using ih(6) w3(3) by simp
    show "findall_code_blocks last = []" by (rule ih(7))
    show "stdout w' = stdout w @ [Plain ''Creation response that failed to parse:'', Plain last]"
      using ih(8) w3(4) by simp
    show "last_ai_response w' = Some last" by (rule last)
  next
    assume "retry_count = max_retries"
    with lt show "last = response" by simp
  next
    assume "retry_count = max_retries"
    with lt show "last_ai_response w' = last_ai_response w" by simp
  qed
qed

lemma upt_0_3: "[0..<3] = [0, 1, 2::nat]"
  by (simp add: upt_rec)

lemma unparsable_exhausts_from_start:
  assumes stubborn: "\<And>n messages. \<exists>r. mm n messages = Inr r \<and> r_content r \<noteq> []
                        \<and> findall_code_blocks (r_content r) = []"
    and none: "findall_code_blocks response = []"
  shows "\<exists>w'' last new.
            apply_creation_steps os mm pr response added_files 0 w = (False, w'')
          \<and> slept w'' = slept w @ [1, 2, 4]
          \<and> requests w'' = requests w @ new \<and> length new = 3
          \<and> (\<forall>m \<in> set new. \<exists>pre. m = [\<lparr>role = ''user'', content = pre @ retry_text\<rparr>])
          \<and> fs w'' = fs w
          \<and> last_ai_response w'' = Some last
          \<and> findall_code_blocks last = []
          \<and> stdout w'' = stdout w
               @ [Plain ''Creation response that failed to parse:'', Plain last]"
proof -
  have le: "(0::nat) \<le> max_retries"
    by simp
  have m: "map (\<lambda>i. 2 ^ i) [0..<max_retries] = [1, 2, 4::nat]"
    by (simp add: max_retries_def upt_0_3)
  have d: "max_retries - 0 = 3" and l: "0 < max_retries"
    by (simp_all add: max_retries_def)
  note ex = unparsable_exhausts [of mm response 0 os pr added_files w, OF stubborn none le]
  show ?thesis
    using ex unfolding m d
    by (elim exE conjE) (intro exI conjI, (assumption | simp add: l)+)
qed

lemma prose_model_stubborn:
  "\<exists>r. prose_model n messages = Inr r \<and> r_content r \<noteq> []
       \<and> findall_code_blocks (r_content r) = []"
  using refusal_blocks by (simp add: prose_model_def)

lemma run_projections:
  assumes "\<exists>w'' last new.
            run = (False, w'')
          \<and> slept w'' = s
          \<and> requests w'' = rq @ new \<and> length new = 3
          \<and> Q new
          \<and> fs w'' = f
          \<and> last_ai_response w'' = Some last
          \<and> findall_code_blocks last = []
          \<and> stdout w'' = out @ [Plain h, Plain last]"
  shows "fst run = False \<and> slept (snd run) = s
     \<and> length (requests (snd run)) = length rq + 3
     \<and> (\<exists>last. findall_code_blocks last = [] \<and> stdout (snd run) = out @ [Plain h, Plain last])"
  using assms by auto

text \<open>
  Claim C4, as the code has it. Starting from \<open>retry_count = 0\<close>, the function sleeps
  \<open>2 ** retry_count\<close> seconds before each new request, that is 1, 2 and 4 seconds, and
  sends at most three of them. When the first response and every answer of the model are
  non-empty texts without a code block, exactly three requests are sent, each ending with
  the error text and the request to answer again; the function then returns \<open>False\<close>,
  the file system is untouched, and the last answer of the model is printed after the
  line \<open>Creation response that failed to parse:\<close>.
\<close>

theorem creation_retry_policy:
  "(apply_creation_steps os mm pr response added_files 0 w = (b, w') \<longrightarrow>
      (\<exists>k\<le>3. slept w' = slept w @ map (\<lambda>i. 2 ^ i) [0..<k]
            \<and> length (requests w') = length (requests w) + k))
   \<and> (findall_code_blocks response = [] \<longrightarrow>
        (\<forall>n messages. \<exists>r. mm n messages = Inr r \<and> r_content r \<noteq> []
                          \<and> findall_code_blocks (r_content r) = []) \<longrightarrow>
        (\<exists>w'' last new.
            apply_creation_steps os mm pr response added_files 0 w = (False, w'')
          \<and> slept w'' = slept w @ [1, 2, 4]
          \<and> requests w'' = requests w @ new \<and> length new = 3
          \<and> (\<forall>m \<in> set new. \<exists>pre. m = [\<lparr>role = ''user'', content = pre @ retry_text\<rparr>])
          \<and> fs w'' = fs w
          \<and> last_ai_response w'' = Some last
          \<and> findall_code_blocks last = []
          \<and> stdout w'' = stdout w
               @ [Plain ''Creation response that failed to parse:'', Plain last]))"
proof (intro conjI impI)
  assume "apply_creation_steps os mm pr response added_files 0 w = (b, w')"
  from retries_bounded [OF this]
  show "\<exists>k\<le>3. slept w' = slept w @ map (\<lambda>i. 2 ^ i) [0..<k]
            \<and> length (requests w') = length (requests w) + k"
    by (simp add: max_retries_def)
next
  assume none: "findall_code_blocks response = []"
    and stubborn: "\<forall>n messages. \<exists>r. mm n messages = Inr r \<and> r_content r \<noteq> []
                          \<and> findall_code_blocks (r_content r) = []"
  show "\<exists>w'' last new.
            apply_creation_steps os mm pr response added_files 0 w = (False, w'')
          \<and> slept w'' = slept w @ [1, 2, 4]
          \<and> requests w'' = requests w @ new \<and> length new = 3
          \<and> (\<forall>m \<in> set new. \<exists>pre. m = [\<lparr>role = ''user'', content = pre @ retry_text\<rparr>])
          \<and> fs w'' = fs w
          \<and> last_ai_response w'' = Some last
          \<and> findall_code_blocks last = []
          \<and> stdout w'' = stdout w
               @ [Plain ''Creation response that failed to parse:'', Plain last]"
    by (rule unparsable_exhausts_from_start [OF stubborn [rule_format] none])
qed

text \<open>The theorem for a model that always answers \<open>Sorry, no.\<close> and the first
  response \<open>hello\<close>.\<close>

theorem creation_retry_policy_witness:
  "findall_code_blocks ''hello'' = []
   \<and> fst (apply_creation_steps mem_os prose_model short_prompts ''hello'' None 0
            (session_start Map.empty)) = False
   \<and> slept (snd (apply_creation_steps mem_os prose_model short_prompts ''hello'' None 0
            (session_start Map.empty))) = [1, 2, 4]
   \<and> length (requests (snd (apply_creation_steps mem_os prose_model short_prompts ''hello''
            None 0 (session_start Map.empty)))) = 3
   \<and> (\<exists>last. findall_code_blocks last = []
         \<and> stdout (snd (apply_creation_steps mem_os prose_model short_prompts ''hello'' None 0
              (session_start Map.empty)))
            = [Plain ''Creation response that failed to parse:'', Plain last])"
proof -
  let ?w = "session_start (Map.empty :: memfs)"
  let ?run = "apply_creation_steps mem_os prose_model short_prompts ''hello'' None 0 ?w"
  have stubborn: "\<forall>n messages. \<exists>r. prose_model n messages = Inr r \<and> r_content r \<noteq> []
                          \<and> findall_code_blocks (r_content r) = []"
    by (intro allI) (rule prose_model_stubborn)
  have start: "slept ?w = []" "requests ?w = []" "stdout ?w = []"
    by (simp_all add: session_start_def)
  note policy = creation_retry_policy [of mem_os prose_model short_prompts "''hello''" None ?w
      "fst ?run" "snd ?run"]
  note proj = policy [THEN conjunct2, THEN mp, THEN mp, OF hello_blocks stubborn,
      THEN run_projections]
  show ?thesis
    by (rule conjI [OF hello_blocks proj [unfolded start append_Nil list.size add_0]])
qed

text \<open>
  Claim C4 as the specification words it fails: the waits before the three retries are
  1, 2 and 4 seconds, so the backoff starts at one second, not at two.
\<close>

theorem first_backoff_is_one_second:
  "findall_code_blocks ''hello'' = []
   \<and> slept (snd (apply_creation_steps mem_os prose_model short_prompts ''hello'' None 0
            (session_start Map.empty))) = [1, 2, 4]
   \<and> hd (slept (snd (apply_creation_steps mem_os prose_model short_prompts ''hello'' None 0
            (session_start Map.empty)))) \<noteq> 2"
proof -
  let ?w = "session_start (Map.empty :: memfs)"
  let ?run = "apply_creation_steps mem_os prose_model short_prompts ''hello'' None 0 ?w"
  have start: "slept ?w = []"
    by (simp add: session_start_def)
  note proj = unparsable_exhausts_from_start [of prose_model "''hello''" mem_os short_prompts None ?w,
      OF prose_model_stubborn hello_blocks, THEN run_projections]
  have r2: "slept (snd ?run) = [1, 2, 4]"
    using proj [THEN conjunct2, THEN conjunct1] unfolding start by simp
  have r3: "hd (slept (snd ?run)) \<noteq> 2"
    unfolding r2 by simp
  show ?thesis
    by (rule conjI [OF hello_blocks conjI [OF r2 r3]])
qed

end
